theory Spec2Isabelle
  imports Complex_Main
begin

section \<open>The LBM driver of GuidedTutorials/LBM/MRT/main_driver.cpp\<close>

text \<open>
  The driver reads six parameters, builds a periodic cubic grid with one ghost layer,
  fills the population field with the equilibrium of a sinusoidal shear wave, and then
  runs the collide-and-stream loop, writing hydrodynamic fields and structure factor
  snapshots at the output cadence.

  The C++ type \<open>Real\<close> is read as a real number and \<open>int\<close> as an integer. Sums and
  equalities of field values are those of the real numbers; the rounding of the
  floating point type is outside the model. No statement below depends on the
  wrap-around of \<open>int\<close>: the only arithmetic on it is \<open>nx - 1\<close>, the step counter and
  \<open>step % plot_int\<close> with both operands positive.
\<close>

subsection \<open>Input parameters\<close>

text \<open>
  \<open>ParmParse\<close> holds the input table. A value is the text of an integer literal
  (\<open>PInt\<close>) or of a floating point literal that is not an integer literal (\<open>PReal\<close>).
  \<open>query\<close> leaves the variable alone when the key is absent, stores the value when it
  parses at the variable's type, and aborts the run on a type mismatch.

  The table holds numeric literals only. Text that is no number at all, and an integer
  literal that does not fit the 32 bits of \<open>int\<close>, cannot be written down faithfully in
  it: what \<open>ParmParse\<close> does with them is decided inside AMReX, which is not among the
  sources. Such inputs are outside the model: \<open>PInt\<close> stands for an integer literal
  that the variable can hold, and the statement on the runs that setup lets through
  names the range of \<open>int\<close> in its hypotheses. No statement below says when setup
  rejects an input.
\<close>

datatype pval = PInt int | PReal real

type_synonym parm_table = "string \<rightharpoonup> pval"

datatype setup_error = TypeMismatch string

definition query_int :: "parm_table \<Rightarrow> string \<Rightarrow> int \<Rightarrow> setup_error + int" where
  "query_int pp name ref =
     (case pp name of
        None \<Rightarrow> Inr ref
      | Some (PInt i) \<Rightarrow> Inr i
      | Some (PReal r) \<Rightarrow> Inl (TypeMismatch name))"

definition query_real :: "parm_table \<Rightarrow> string \<Rightarrow> real \<Rightarrow> setup_error + real" where
  "query_real pp name ref =
     (case pp name of
        None \<Rightarrow> Inr ref
      | Some (PInt i) \<Rightarrow> Inr (real_of_int i)
      | Some (PReal r) \<Rightarrow> Inr r)"

text \<open>
  The parameters of a run. \<open>tau\<close> and \<open>temperature\<close> are globals of \<open>lbm.H\<close>; the
  other four are locals of \<open>main_driver\<close> (\<open>nx\<close>, \<open>nsteps\<close>, \<open>plot_int\<close>, \<open>A\<close>).
\<close>

record params =
  p_nx :: int
  p_nsteps :: int
  p_plot_int :: int
  p_tau :: real
  p_temperature :: real
  p_A :: real

text \<open>
  Lines 15 to 30. The values \<open>tau0\<close> and \<open>temperature0\<close> that the two globals hold
  before the queries are set in \<open>lbm.H\<close> and are parameters here.
\<close>

definition read_params :: "real \<Rightarrow> real \<Rightarrow> parm_table \<Rightarrow> setup_error + params" where
  "read_params tau0 temperature0 pp =
     (case query_int pp ''nx'' 16 of Inl e \<Rightarrow> Inl e | Inr nx \<Rightarrow>
     (case query_int pp ''nsteps'' 100 of Inl e \<Rightarrow> Inl e | Inr nsteps \<Rightarrow>
     (case query_int pp ''plot_int'' 10 of Inl e \<Rightarrow> Inl e | Inr plot_int \<Rightarrow>
     (case query_real pp ''tau'' tau0 of Inl e \<Rightarrow> Inl e | Inr tau \<Rightarrow>
     (case query_real pp ''temperature'' temperature0 of Inl e \<Rightarrow> Inl e | Inr temperature \<Rightarrow>
     (case query_real pp ''A'' (1 / 1000) of Inl e \<Rightarrow> Inl e | Inr a \<Rightarrow>
        Inr \<lparr> p_nx = nx, p_nsteps = nsteps, p_plot_int = plot_int,
              p_tau = tau, p_temperature = temperature, p_A = a \<rparr>))))))"

text \<open>
  The parameters of the end-to-end scenario of the specification: grid size 16,
  relaxation time 1, temperature 0 and amplitude 0.001, with the default step count and
  output cadence.
\<close>

definition scenario_params :: params where
  "scenario_params =
     \<lparr> p_nx = 16, p_nsteps = 100, p_plot_int = 10, p_tau = 1, p_temperature = 0, p_A = 1 / 1000 \<rparr>"

text \<open>
  The configuration \<open>nsteps = 1\<close>, \<open>plot_int = 1\<close>, every other key left at its default:
  the shortest run whose only pass of the time step loop is an output step.
\<close>

definition one_step_params :: params where
  "one_step_params =
     \<lparr> p_nx = 16, p_nsteps = 1, p_plot_int = 1, p_tau = 1, p_temperature = 0, p_A = 1 / 1000 \<rparr>"

subsection \<open>Boxes and MultiFabs\<close>

text \<open>
  A cell is a triple of integer coordinates. A \<open>MultiFab\<close> stores one real per cell
  and component; the model is a total function, and every loop below writes only the
  cells of its box and the components of its range, as the source does. The domain is
  the single box from \<open>(0,0,0)\<close> to \<open>(nx-1,nx-1,nx-1)\<close>; \<open>fold\<close>, \<open>fnew\<close> and
  \<open>hydrovars\<close> carry \<open>nghost = 1\<close> ghost layer around it.
\<close>

type_synonym cell = "int \<times> int \<times> int"

type_synonym multifab = "cell \<Rightarrow> nat \<Rightarrow> real"

type_synonym random_engine = nat

definition nghost :: int where
  "nghost = 1"

definition in_box :: "int \<Rightarrow> int \<Rightarrow> cell \<Rightarrow> bool" where
  "in_box lo hi cl =
     (case cl of (x, y, z) \<Rightarrow> lo \<le> x \<and> x \<le> hi \<and> lo \<le> y \<and> y \<le> hi \<and> lo \<le> z \<and> z \<le> hi)"

definition valid_box :: "int \<Rightarrow> cell \<Rightarrow> bool" where
  "valid_box nx cl = in_box 0 (nx - 1) cl"

definition grown_box :: "int \<Rightarrow> cell \<Rightarrow> bool" where
  "grown_box nx cl = in_box (0 - nghost) (nx - 1 + nghost) cl"

text \<open>The cells of the valid box in loop order: \<open>x\<close> runs fastest, \<open>z\<close> slowest.\<close>

definition box_cells :: "int \<Rightarrow> cell list" where
  "box_cells nx =
     concat (map (\<lambda>z. concat (map (\<lambda>y. map (\<lambda>x. (x, y, z)) [0..nx - 1]) [0..nx - 1])) [0..nx - 1])"

text \<open>
  \<open>FillBoundary\<close> with the periodicity of the geometry: every ghost cell receives the
  values of its periodic image in the valid box.
\<close>

definition wrap :: "int \<Rightarrow> cell \<Rightarrow> cell" where
  "wrap nx cl = (case cl of (x, y, z) \<Rightarrow> (x mod nx, y mod nx, z mod nx))"

definition FillBoundary :: "int \<Rightarrow> multifab \<Rightarrow> multifab" where
  "FillBoundary nx f =
     (\<lambda>cl i. if grown_box nx cl \<and> \<not> valid_box nx cl then f (wrap nx cl) i else f cl i)"

text \<open>\<open>MultiFab::Copy(dst, src, 0, 0, n, 0)\<close>: components below \<open>n\<close>, no ghost cells.\<close>

definition Copy :: "int \<Rightarrow> nat \<Rightarrow> multifab \<Rightarrow> multifab \<Rightarrow> multifab" where
  "Copy nx n dst src = (\<lambda>cl i. if valid_box nx cl \<and> i < n then src cl i else dst cl i)"

text \<open>\<open>setVal(0.)\<close> on a MultiFab of \<open>n\<close> components without ghost cells.\<close>

definition setVal0 :: "int \<Rightarrow> nat \<Rightarrow> multifab \<Rightarrow> multifab" where
  "setVal0 nx n f = (\<lambda>cl i. if valid_box nx cl \<and> i < n then 0 else f cl i)"

subsection \<open>The contents of lbm.H\<close>

text \<open>
  \<open>lbm.H\<close> is included by the driver and is not among the sources. What the driver
  uses of it is a parameter of the model: the number \<open>ncomp\<close> of populations per
  cell, the table \<open>c\<close> of lattice directions (\<open>c i k\<close> is \<open>c[i][k]\<close>), the function
  \<open>fequilibrium\<close>, the kernel \<open>stream_collide\<close>, and the initial values of the globals
  \<open>tau\<close> and \<open>temperature\<close>. The kernel is called for one cell with the old field, the
  new field and the random engine; it reads the two globals, so they are arguments
  here, and it returns the new field and the engine as it leaves them.
\<close>

record lbm_header =
  ncomp :: nat
  c :: "nat \<Rightarrow> nat \<Rightarrow> int"
  fequilibrium :: "real \<Rightarrow> real \<times> real \<times> real \<Rightarrow> nat \<Rightarrow> real"
  stream_collide ::
    "real \<Rightarrow> real \<Rightarrow> cell \<Rightarrow> multifab \<Rightarrow> multifab \<times> random_engine \<Rightarrow> multifab \<times> random_engine"
  tau_init :: real
  temperature_init :: real

subsection \<open>State of the driver and the calls it makes\<close>

text \<open>
  The calls that leave the driver are recorded in order, each with the arguments that
  matter: the plot file of the hydrodynamic fields (step, time, field written), the
  field handed to \<open>StructFact::FortStructure\<close>, the structure factor plot file (step,
  time), and the progress line.
\<close>

datatype call =
    WriteSingleLevelPlotfile int real multifab
  | FortStructure multifab
  | WritePlotFile int real
  | Print int

record driver_state =
  fold_mf :: multifab
  fnew :: multifab
  hydrovars :: multifab
  structFactMF :: multifab
  engine :: random_engine
  time :: real
  calls :: "call list"

text \<open>
  Lines 52 to 91. A new MultiFab holds whatever its memory held (\<open>m1\<close> to \<open>m4\<close>);
  \<open>structFactMF\<close> has \<open>AMREX_SPACEDIM = 3\<close> components, no ghost cells, and is set to
  zero.
\<close>

definition structVars :: nat where
  "structVars = 3"

definition allocate :: "params \<Rightarrow> multifab \<Rightarrow> multifab \<Rightarrow> multifab \<Rightarrow> multifab \<Rightarrow> random_engine \<Rightarrow> driver_state" where
  "allocate P m1 m2 m3 m4 eng =
     \<lparr> fold_mf = m1, fnew = m2, hydrovars = m3,
       structFactMF = setVal0 (p_nx P) structVars m4,
       engine = eng, time = 0, calls = [] \<rparr>"

text \<open>
  Lines 92 to 97: the populations of the sinusoidal shear wave, ghost cells included.
  \<open>shear_uy P x\<close> is \<open>uy\<close> of line 93. For \<open>nx = 0\<close> the quotient of the source is not a
  number; the statements about the wave assume a positive grid size.
\<close>

definition shear_uy :: "params \<Rightarrow> int \<Rightarrow> real" where
  "shear_uy P x = p_A P * sin (2 * pi * real_of_int x / real_of_int (p_nx P))"

definition initialize :: "lbm_header \<Rightarrow> params \<Rightarrow> multifab \<Rightarrow> multifab" where
  "initialize L P f =
     (\<lambda>cl i. if grown_box (p_nx P) cl \<and> i < ncomp L
              then fequilibrium L 1 (0, shear_uy P (fst cl), 0) i
              else f cl i)"

text \<open>
  Lines 104 to 109, for one cell: the three components are cleared, then every
  population adds its share to each of them. \<open>f\<close> is the population vector of the cell
  and \<open>u\<close> its hydrodynamic record.
\<close>

definition hydro_cell0 :: "nat \<Rightarrow> (nat \<Rightarrow> nat \<Rightarrow> int) \<Rightarrow> (nat \<Rightarrow> real) \<Rightarrow> (nat \<Rightarrow> real) \<Rightarrow> nat \<Rightarrow> real" where
  "hydro_cell0 n cs f u =
     foldl (\<lambda>v i. (\<lambda>k. if k < 3 then v k + f i * real_of_int (cs i k) else v k))
       (\<lambda>k. if k < 3 then 0 else u k) [0..<n]"

text \<open>
  Lines 141 to 144, for one cell: \<open>u(x,y,z)\<close> without a component index is component
  0, and the factor is \<open>c[i][1]\<close>.
\<close>

definition hydro_cell :: "nat \<Rightarrow> (nat \<Rightarrow> nat \<Rightarrow> int) \<Rightarrow> (nat \<Rightarrow> real) \<Rightarrow> (nat \<Rightarrow> real) \<Rightarrow> nat \<Rightarrow> real" where
  "hydro_cell n cs f u =
     foldl (\<lambda>v i. v(0 := v 0 + f i * real_of_int (cs i 1))) (u(0 := 0)) [0..<n]"

text \<open>The two loops over the cells of \<open>hydrovars\<close>, ghost cells included.\<close>

definition hydro_output0 :: "lbm_header \<Rightarrow> int \<Rightarrow> multifab \<Rightarrow> multifab \<Rightarrow> multifab" where
  "hydro_output0 L nx f u =
     (\<lambda>cl. if grown_box nx cl then hydro_cell0 (ncomp L) (c L) (f cl) (u cl) else u cl)"

definition hydro_output :: "lbm_header \<Rightarrow> int \<Rightarrow> multifab \<Rightarrow> multifab \<Rightarrow> multifab" where
  "hydro_output L nx f u =
     (\<lambda>cl. if grown_box nx cl then hydro_cell (ncomp L) (c L) (f cl) (u cl) else u cl)"

definition log_call :: "call \<Rightarrow> driver_state \<Rightarrow> driver_state" where
  "log_call e st = st\<lparr> calls := calls st @ [e] \<rparr>"

text \<open>Lines 100 to 115: the output of the initial data.\<close>

definition initial_output :: "lbm_header \<Rightarrow> params \<Rightarrow> driver_state \<Rightarrow> driver_state" where
  "initial_output L P st =
     (if p_plot_int P > 0 then
        (let u = hydro_output0 L (p_nx P) (fold_mf st) (hydrovars st)
         in log_call (WritePlotFile 0 0)
              (log_call (FortStructure (structFactMF st))
                 (log_call (WriteSingleLevelPlotfile 0 (time st) u) (st\<lparr> hydrovars := u \<rparr>))))
      else st)"

text \<open>Lines 122 to 129: the kernel runs once for every cell of the valid box.\<close>

definition stream_collide_pass ::
    "lbm_header \<Rightarrow> params \<Rightarrow> multifab \<Rightarrow> multifab \<times> random_engine \<Rightarrow> multifab \<times> random_engine" where
  "stream_collide_pass L P fOld start =
     foldl (\<lambda>acc cl. stream_collide L (p_tau P) (p_temperature P) cl fOld acc)
       start (box_cells (p_nx P))"

text \<open>Lines 120 to 131: ghost cells, the kernel over the valid box, and the copy back.\<close>

definition advance :: "lbm_header \<Rightarrow> params \<Rightarrow> driver_state \<Rightarrow> driver_state" where
  "advance L P st =
     (let fOld = FillBoundary (p_nx P) (fold_mf st);
          r = stream_collide_pass L P fOld (fnew st, engine st)
      in st\<lparr> fold_mf := Copy (p_nx P) (ncomp L) fOld (fst r), fnew := fst r, engine := snd r \<rparr>)"

text \<open>Lines 140 to 148: the output of a later step.\<close>

definition plot_output :: "lbm_header \<Rightarrow> params \<Rightarrow> int \<Rightarrow> driver_state \<Rightarrow> driver_state" where
  "plot_output L P step st =
     (let u = hydro_output L (p_nx P) (fold_mf st) (hydrovars st)
      in log_call (WritePlotFile step (time st))
           (log_call (WriteSingleLevelPlotfile step (time st) u) (st\<lparr> hydrovars := u \<rparr>)))"

text \<open>Lines 120 to 149: one pass of the time step loop.\<close>

definition timestep :: "lbm_header \<Rightarrow> params \<Rightarrow> int \<Rightarrow> driver_state \<Rightarrow> driver_state" where
  "timestep L P step st =
     (let st1 = advance L P st;
          st2 = log_call (Print step) (log_call (FortStructure (structFactMF st1)) st1);
          st3 = st2\<lparr> time := real_of_int step \<rparr>
      in if p_plot_int P > 0 \<and> step mod p_plot_int P = 0 then plot_output L P step st3 else st3)"

text \<open>Line 118: \<open>for (int step=1; step <= nsteps; ++step)\<close>.\<close>

function timestep_loop :: "lbm_header \<Rightarrow> params \<Rightarrow> int \<Rightarrow> driver_state \<Rightarrow> driver_state" where
  "timestep_loop L P step st =
     (if step \<le> p_nsteps P then timestep_loop L P (step + 1) (timestep L P step st) else st)"
  by pat_completeness auto
termination
  by (relation "measure (\<lambda>(L, P, step, st). nat (p_nsteps P + 1 - step))") auto

declare timestep_loop.simps [simp del]

text \<open>
  The driver from the parameters on: \<open>start\<close> is the state after the initialization
  and the output of the initial data, before the first step; \<open>run\<close> is the state at the
  end.
\<close>

definition start :: "lbm_header \<Rightarrow> params \<Rightarrow> multifab \<Rightarrow> multifab \<Rightarrow> multifab \<Rightarrow> multifab \<Rightarrow> random_engine \<Rightarrow> driver_state" where
  "start L P m1 m2 m3 m4 eng =
     (let st0 = allocate P m1 m2 m3 m4 eng
      in initial_output L P (st0\<lparr> fold_mf := initialize L P (fold_mf st0) \<rparr>))"

definition run :: "lbm_header \<Rightarrow> params \<Rightarrow> multifab \<Rightarrow> multifab \<Rightarrow> multifab \<Rightarrow> multifab \<Rightarrow> random_engine \<Rightarrow> driver_state" where
  "run L P m1 m2 m3 m4 eng = timestep_loop L P 1 (start L P m1 m2 m3 m4 eng)"

definition main_driver ::
    "lbm_header \<Rightarrow> parm_table \<Rightarrow> multifab \<Rightarrow> multifab \<Rightarrow> multifab \<Rightarrow> multifab \<Rightarrow> random_engine \<Rightarrow> setup_error + driver_state" where
  "main_driver L pp m1 m2 m3 m4 eng =
     (case read_params (tau_init L) (temperature_init L) pp of
        Inl e \<Rightarrow> Inl e
      | Inr P \<Rightarrow> Inr (run L P m1 m2 m3 m4 eng))"

section \<open>The lattice model in the words of the specification\<close>

text \<open>
  The header \<open>lbm.H\<close> defines the stencil, the equilibrium and the kernel, and it is not
  among the sources. The definitions of this section follow sections 2 to 4.5 of the
  specification; the claims that are about the header are stated with them, and they
  supply one concrete header on which the driver can be run.
\<close>

subsection \<open>Moments\<close>

text \<open>Component \<open>k\<close> of a vector given as a triple, as in \<open>{0., uy, 0.}\<close> at line 95.\<close>

definition vec3 :: "real \<times> real \<times> real \<Rightarrow> nat \<Rightarrow> real" where
  "vec3 u k =
     (case u of (ux, uy, uz) \<Rightarrow> if k = 0 then ux else if k = 1 then uy else if k = 2 then uz else 0)"

text \<open>
  Modelled from the spec: the moment extractor of \<open>lbm.H\<close> is missing. Section 4.5: the
  density is the sum of the populations.
\<close>

definition density :: "nat \<Rightarrow> (nat \<Rightarrow> real) \<Rightarrow> real" where
  "density n f = (\<Sum>i<n. f i)"

text \<open>
  Modelled from the spec: the moment extractor of \<open>lbm.H\<close> is missing. Sections 3 and
  4.5: the first raw moment, the sum of the populations times their directions, is
  the momentum.
\<close>

definition momentum :: "nat \<Rightarrow> (nat \<Rightarrow> nat \<Rightarrow> int) \<Rightarrow> (nat \<Rightarrow> real) \<Rightarrow> nat \<Rightarrow> real" where
  "momentum n cs f k = (\<Sum>i<n. f i * real_of_int (cs i k))"

text \<open>
  Modelled from the spec: the moment extractor of \<open>lbm.H\<close> is missing. Section 4.5: the
  velocity is the first moment divided by the density. For density zero the
  specification asks for a failure to be raised; the quotient is then the value zero
  of division in HOL, and no statement below uses the velocity of such a cell.
\<close>

definition velocity :: "nat \<Rightarrow> (nat \<Rightarrow> nat \<Rightarrow> int) \<Rightarrow> (nat \<Rightarrow> real) \<Rightarrow> nat \<Rightarrow> real" where
  "velocity n cs f k = momentum n cs f k / density n f"

subsection \<open>Stencil and equilibrium\<close>

text \<open>
  Modelled from the spec: the direction table \<open>c\<close> of \<open>lbm.H\<close> is missing. Section 4.1
  asks for integer directions closed under negation; the instance is the stencil of
  nineteen directions: the rest direction, the six axis directions and the twelve
  diagonals of the coordinate planes.
\<close>

definition d3q19_c :: "nat \<Rightarrow> nat \<Rightarrow> int" where
  "d3q19_c i k =
     (if i < 19 \<and> k < 3 then
        [[0, 0, 0],
         [1, 0, 0], [-1, 0, 0], [0, 1, 0], [0, -1, 0], [0, 0, 1], [0, 0, -1],
         [1, 1, 0], [-1, -1, 0], [1, -1, 0], [-1, 1, 0],
         [0, 1, 1], [0, -1, -1], [0, 1, -1], [0, -1, 1],
         [1, 0, 1], [-1, 0, -1], [1, 0, -1], [-1, 0, 1]] ! i ! k
      else 0)"

text \<open>
  Modelled from the spec: the weights of \<open>lbm.H\<close> are missing. Section 4.1 asks for
  weights that sum to one and have a vanishing first moment; these are the weights of
  the nineteen directions: one third at rest, one eighteenth along the axes, one
  thirty-sixth along the diagonals.
\<close>

definition d3q19_w :: "nat \<Rightarrow> real" where
  "d3q19_w i = (if i = 0 then 1 / 3 else if i < 7 then 1 / 18 else if i < 19 then 1 / 36 else 0)"

text \<open>
  Modelled from the spec: \<open>fequilibrium\<close> of \<open>lbm.H\<close> is missing. Section 4.2: for each
  direction the weight times the density times a second-order polynomial in the
  velocity, built from \<open>c\<^sub>i \<cdot> u\<close> and \<open>|u|\<^sup>2\<close>. The coefficients are those of a lattice
  with squared sound speed one third.
\<close>

definition equilibrium ::
    "(nat \<Rightarrow> nat \<Rightarrow> int) \<Rightarrow> (nat \<Rightarrow> real) \<Rightarrow> real \<Rightarrow> real \<times> real \<times> real \<Rightarrow> nat \<Rightarrow> real" where
  "equilibrium cs w rho u i =
     (let cu = (\<Sum>k<3. real_of_int (cs i k) * vec3 u k);
          uu = (\<Sum>k<3. vec3 u k * vec3 u k)
      in rho * w i * (1 + 3 * cu + 9 / 2 * cu * cu - 3 / 2 * uu))"

text \<open>
  Modelled from the spec: \<open>fequilibrium\<close> of \<open>lbm.H\<close> is missing. Section 4.2 guarantees
  that the zeroth moment of the equilibrium is the density and its first moment the
  density times the velocity. A header keeps this contract when its \<open>fequilibrium\<close>
  does so for its own directions.
\<close>

definition equilibrium_contract :: "lbm_header \<Rightarrow> bool" where
  "equilibrium_contract L =
     (\<forall>rho u. density (ncomp L) (fequilibrium L rho u) = rho
        \<and> (\<forall>k<3. momentum (ncomp L) (c L) (fequilibrium L rho u) k = rho * vec3 u k))"

subsection \<open>Collision\<close>

text \<open>
  Modelled from the spec: the stencil and the moment basis of \<open>lbm.H\<close> are missing.
  Sections 3 and 4.3: a lattice model has a number of directions, the directions,
  their weights, and a moment basis (\<open>mbasis M k i\<close> is the entry of moment \<open>k\<close> at
  direction \<open>i\<close>).
\<close>

record lattice_model =
  ndir :: nat
  dirs :: "nat \<Rightarrow> nat \<Rightarrow> int"
  wts :: "nat \<Rightarrow> real"
  mbasis :: "nat \<Rightarrow> nat \<Rightarrow> real"

text \<open>
  Modelled from the spec: the collision of \<open>lbm.H\<close> is missing. Section 4.3: the
  conserved moments are the density and the three components of the momentum; they
  are the first four moments of the basis.
\<close>

definition nconserved :: nat where
  "nconserved = 4"

text \<open>
  Modelled from the spec: the collision of \<open>lbm.H\<close> is missing. Section 4.3 (c): the
  transform of a population vector into the moment basis.
\<close>

definition to_moments :: "lattice_model \<Rightarrow> (nat \<Rightarrow> real) \<Rightarrow> nat \<Rightarrow> real" where
  "to_moments M g k = (\<Sum>i<ndir M. mbasis M k i * g i)"

text \<open>
  Modelled from the spec: the collision of \<open>lbm.H\<close> is missing. Section 4.3 (e) asks
  for a transform back to populations and names none; this is the one of a basis that
  is orthogonal under the weights. \<open>mnorm M k\<close> is the squared length of basis vector
  \<open>k\<close> under the weights.
\<close>

definition mnorm :: "lattice_model \<Rightarrow> nat \<Rightarrow> real" where
  "mnorm M k = (\<Sum>i<ndir M. wts M i * mbasis M k i * mbasis M k i)"

text \<open>
  Modelled from the spec: the collision of \<open>lbm.H\<close> is missing. Section 4.3 (e): the
  transform back, each moment carried by its basis vector, weighted and divided by the
  squared length.
\<close>

definition from_moments :: "lattice_model \<Rightarrow> (nat \<Rightarrow> real) \<Rightarrow> nat \<Rightarrow> real" where
  "from_moments M m i = (\<Sum>k<ndir M. wts M i * mbasis M k i / mnorm M k * m k)"

text \<open>
  Modelled from the spec: the relaxation rates of \<open>lbm.H\<close> are missing. Section 4.3
  (c): rate zero for the conserved moments and rate \<open>1/\<tau>\<close> for the others.
\<close>

definition relax_rate :: "real \<Rightarrow> nat \<Rightarrow> real" where
  "relax_rate tau k = (if k < nconserved then 0 else 1 / tau)"

text \<open>
  Modelled from the spec: the collision of \<open>lbm.H\<close> is missing. Section 4.3: (a) the
  moments of the cell, (b) its equilibrium, (c) the deviation from equilibrium in the
  moment basis, each moment relaxed with its rate, (d) for a positive temperature a
  random term on every moment that is not conserved, with the variance
  \<open>T \<lambda> (2 - \<lambda>)\<close> of a fluctuation-dissipation relation in the temperature \<open>T\<close> and the
  rate \<open>\<lambda>\<close>, (e) the transform back, added to the equilibrium. \<open>xi k\<close> is the random
  number drawn for moment \<open>k\<close>.
\<close>

definition collide :: "lattice_model \<Rightarrow> real \<Rightarrow> real \<Rightarrow> (nat \<Rightarrow> real) \<Rightarrow> (nat \<Rightarrow> real) \<Rightarrow> nat \<Rightarrow> real" where
  "collide M tau T xi f =
     (let rho = density (ndir M) f;
          u = (velocity (ndir M) (dirs M) f 0, velocity (ndir M) (dirs M) f 1,
               velocity (ndir M) (dirs M) f 2);
          feq = equilibrium (dirs M) (wts M) rho u;
          m = to_moments M (\<lambda>i. f i - feq i);
          m' = (\<lambda>k. (1 - relax_rate tau k) * m k
                     + (if T > 0 \<and> nconserved \<le> k
                        then sqrt (T * relax_rate tau k * (2 - relax_rate tau k)) * xi k
                        else 0))
      in (\<lambda>i. feq i + from_moments M m' i))"

text \<open>
  Modelled from the spec: the moment basis of \<open>lbm.H\<close> is missing. Sections 3 and 4.3
  ask that density and momentum are moments of the basis and that the transform back
  inverts the transform. For the conserved moments and the transform back by weights
  and squared lengths this says: the first row is constant one, the next three rows
  are the components of the directions, their squared lengths do not vanish, and each
  of them is orthogonal under the weights to every other row.
\<close>

definition conserving_basis :: "lattice_model \<Rightarrow> bool" where
  "conserving_basis M =
     (nconserved \<le> ndir M
      \<and> (\<forall>i<ndir M. mbasis M 0 i = 1 \<and> (\<forall>k<3. mbasis M (Suc k) i = real_of_int (dirs M i k)))
      \<and> (\<forall>j<nconserved. mnorm M j \<noteq> 0)
      \<and> (\<forall>j<nconserved. \<forall>k<ndir M. j \<noteq> k \<longrightarrow>
            (\<Sum>i<ndir M. wts M i * mbasis M j i * mbasis M k i) = 0))"

text \<open>
  Modelled from the spec: the moment basis of \<open>lbm.H\<close> is missing. The instance for the
  nineteen directions consists of polynomials in the components \<open>x\<close>, \<open>y\<close>, \<open>z\<close> of the
  direction that are orthogonal under the weights; \<open>c2\<close> is the squared length of the
  direction.
\<close>

definition d3q19_e :: "nat \<Rightarrow> nat \<Rightarrow> real" where
  "d3q19_e k i =
     (let x = real_of_int (d3q19_c i 0); y = real_of_int (d3q19_c i 1);
          z = real_of_int (d3q19_c i 2); c2 = x * x + y * y + z * z
      in if k = 0 then 1
         else if k = 1 then x
         else if k = 2 then y
         else if k = 3 then z
         else if k = 4 then c2 - 1
         else if k = 5 then 3 * x * x - c2
         else if k = 6 then y * y - z * z
         else if k = 7 then x * y
         else if k = 8 then y * z
         else if k = 9 then z * x
         else if k = 10 then (3 * c2 - 5) * x
         else if k = 11 then (3 * c2 - 5) * y
         else if k = 12 then (3 * c2 - 5) * z
         else if k = 13 then (y * y - z * z) * x
         else if k = 14 then (z * z - x * x) * y
         else if k = 15 then (x * x - y * y) * z
         else if k = 16 then 3 * c2 * c2 - 6 * c2 + 1
         else if k = 17 then (2 * c2 - 3) * (3 * x * x - c2)
         else if k = 18 then (2 * c2 - 3) * (y * y - z * z)
         else 0)"

text \<open>
  Modelled from the spec: the lattice model of \<open>lbm.H\<close> is missing. The model of the
  nineteen directions with the weights and the basis above.
\<close>

definition d3q19 :: lattice_model where
  "d3q19 = \<lparr> ndir = 19, dirs = d3q19_c, wts = d3q19_w, mbasis = d3q19_e \<rparr>"

subsection \<open>Streaming\<close>

text \<open>
  Modelled from the spec: the streaming of \<open>lbm.H\<close> is missing. Section 4.4: the cell
  at the coordinates of a cell plus \<open>c\<^sub>i\<close>.
\<close>

definition shift :: "(nat \<Rightarrow> nat \<Rightarrow> int) \<Rightarrow> nat \<Rightarrow> cell \<Rightarrow> cell" where
  "shift cs i cl = (case cl of (x, y, z) \<Rightarrow> (x + cs i 0, y + cs i 1, z + cs i 2))"

text \<open>
  Modelled from the spec: the streaming of \<open>lbm.H\<close> is missing. Section 4.4, read from
  the receiving cell: the cell at the coordinates of a cell minus \<open>c\<^sub>i\<close>.
\<close>

definition unshift :: "(nat \<Rightarrow> nat \<Rightarrow> int) \<Rightarrow> nat \<Rightarrow> cell \<Rightarrow> cell" where
  "unshift cs i cl = (case cl of (x, y, z) \<Rightarrow> (x - cs i 0, y - cs i 1, z - cs i 2))"

text \<open>
  Modelled from the spec: the streaming of \<open>lbm.H\<close> is missing. Section 4.4: the
  population of direction \<open>i\<close> of a cell is written into the cell at the coordinates
  plus \<open>c\<^sub>i\<close>, wrapped modulo the grid size. As a function of the receiving cell: its
  population of direction \<open>i\<close> is the one of the cell at the coordinates minus \<open>c\<^sub>i\<close>,
  wrapped. That both say the same is \<open>stream_push\<close> below.
\<close>

definition stream :: "int \<Rightarrow> (nat \<Rightarrow> nat \<Rightarrow> int) \<Rightarrow> multifab \<Rightarrow> multifab" where
  "stream nx cs f = (\<lambda>cl i. f (wrap nx (unshift cs i cl)) i)"

text \<open>
  Modelled from the spec: section 3, the cells of the periodic grid are the integer
  coordinates from zero up to the grid size in each direction.
\<close>

definition grid :: "int \<Rightarrow> cell set" where
  "grid nx = {0..<nx} \<times> {0..<nx} \<times> {0..<nx}"

text \<open>
  Modelled from the spec: section 8, the total mass is the density summed over the
  whole grid.
\<close>

definition total_mass :: "int \<Rightarrow> nat \<Rightarrow> multifab \<Rightarrow> real" where
  "total_mass nx n f = (\<Sum>cl\<in>grid nx. density n (f cl))"

text \<open>
  Modelled from the spec: section 8, the total momentum is the momentum summed over
  the whole grid.
\<close>

definition total_momentum :: "int \<Rightarrow> nat \<Rightarrow> (nat \<Rightarrow> nat \<Rightarrow> int) \<Rightarrow> multifab \<Rightarrow> nat \<Rightarrow> real" where
  "total_momentum nx n cs f k = (\<Sum>cl\<in>grid nx. momentum n cs (f cl) k)"

subsection \<open>A concrete header\<close>

text \<open>
  Modelled from the spec: the random numbers of \<open>lbm.H\<close> are missing. Section 4.3 (d)
  asks for one draw per moment from a stream of the engine; the instance maps the
  state of the engine and the moment to one of -1, 0 and 1.
\<close>

definition draw :: "random_engine \<Rightarrow> nat \<Rightarrow> real" where
  "draw eng k = real_of_int ((31 * int eng + 17 * int k) mod 3) - 1"

text \<open>
  Modelled from the spec: the kernel \<open>stream_collide\<close> of \<open>lbm.H\<close> is missing. Section 2:
  collision and streaming fused per cell. The kernel gathers the populations that
  stream into the cell from its neighbours in the old field, whose ghost layer holds
  the periodic images, collides them with random numbers drawn from the engine, and
  stores the result in the cell of the new field. The engine moves on with every
  call, so that every cell and step has its own random numbers.
\<close>

definition fused_kernel ::
    "lattice_model \<Rightarrow> real \<Rightarrow> real \<Rightarrow> cell \<Rightarrow> multifab \<Rightarrow> multifab \<times> random_engine \<Rightarrow> multifab \<times> random_engine" where
  "fused_kernel M tau T cl fOld acc =
     (case acc of (fNew, eng) \<Rightarrow>
        (fNew(cl := (\<lambda>i. if i < ndir M
                          then collide M tau T (draw eng) (\<lambda>j. fOld (unshift (dirs M) j cl) j) i
                          else fNew cl i)),
         Suc eng))"

text \<open>
  Modelled from the spec: \<open>lbm.H\<close> is missing. The header that a lattice model gives:
  its directions, the equilibrium of section 4.2, the fused kernel, and the relaxation
  time one and temperature zero of the scenario of section 8 as the initial values of
  the globals.
\<close>

definition spec_header :: "lattice_model \<Rightarrow> lbm_header" where
  "spec_header M =
     \<lparr> ncomp = ndir M, c = dirs M, fequilibrium = equilibrium (dirs M) (wts M),
       stream_collide = fused_kernel M, tau_init = 1, temperature_init = 0 \<rparr>"

text \<open>Modelled from the spec: \<open>lbm.H\<close> is missing. The header of the nineteen directions.\<close>

definition d3q19_header :: lbm_header where
  "d3q19_header = spec_header d3q19"

text \<open>
  Modelled from the spec: the kernel \<open>stream_collide\<close> of \<open>lbm.H\<close> is missing. Section
  4.3 (d) adds the random term only for a positive temperature. A header keeps this
  when, at temperature zero, the field its kernel returns does not depend on the
  engine.
\<close>

definition kernel_ignores_engine :: "lbm_header \<Rightarrow> bool" where
  "kernel_ignores_engine L =
     (\<forall>tau cl fOld fNew e e'.
        fst (stream_collide L tau 0 cl fOld (fNew, e)) = fst (stream_collide L tau 0 cl fOld (fNew, e')))"

text \<open>Two states of the driver that differ at most in the state of the random engine.\<close>

definition same_fields :: "driver_state \<Rightarrow> driver_state \<Rightarrow> bool" where
  "same_fields st st' =
     (fold_mf st' = fold_mf st \<and> fnew st' = fnew st \<and> hydrovars st' = hydrovars st
      \<and> structFactMF st' = structFactMF st \<and> time st' = time st \<and> calls st' = calls st)"

section \<open>Properties of the driver\<close>

lemma d3q19_header_eq:
  "d3q19_header =
     \<lparr> ncomp = 19, c = d3q19_c, fequilibrium = equilibrium d3q19_c d3q19_w,
       stream_collide = fused_kernel d3q19, tau_init = 1, temperature_init = 0 \<rparr>"
  by (simp add: d3q19_header_def spec_header_def d3q19_def)

subsection \<open>Reading the parameters\<close>

lemma query_int_result:
  assumes "\<forall>r. pp k \<noteq> Some (PReal r)"
  shows "\<exists>v. query_int pp k d = Inr v \<and> (pp k = None \<longrightarrow> v = d) \<and> (\<forall>i. pp k = Some (PInt i) \<longrightarrow> v = i)"
proof (cases "pp k")
  case None
  then show ?thesis by (simp add: query_int_def)
next
  case (Some a)
  with assms show ?thesis by (cases a) (auto simp: query_int_def)
qed

lemma query_real_result:
  "\<exists>v. query_real pp k d = Inr v \<and> (pp k = None \<longrightarrow> v = d)
       \<and> (\<forall>i. pp k = Some (PInt i) \<longrightarrow> v = real_of_int i) \<and> (\<forall>r. pp k = Some (PReal r) \<longrightarrow> v = r)"
proof (cases "pp k")
  case None
  then show ?thesis by (simp add: query_real_def)
next
  case (Some a)
  then show ?thesis by (cases a) (simp_all add: query_real_def)
qed

text \<open>
  Claim C9. When no integer key holds a value that fails to parse as an integer, the
  parameters are read, and for each of \<open>nx\<close>, \<open>nsteps\<close>, \<open>plot_int\<close> and \<open>A\<close>: a key
  absent from the input leaves the built-in default (16, 100, 10 and 0.001), and a
  supplied value replaces it.
\<close>

theorem read_params_defaults_and_overrides:
  assumes "\<forall>r. pp ''nx'' \<noteq> Some (PReal r)"
      and "\<forall>r. pp ''nsteps'' \<noteq> Some (PReal r)"
      and "\<forall>r. pp ''plot_int'' \<noteq> Some (PReal r)"
  shows "\<exists>P. read_params tau0 temperature0 pp = Inr P
           \<and> (pp ''nx'' = None \<longrightarrow> p_nx P = 16)
           \<and> (pp ''nsteps'' = None \<longrightarrow> p_nsteps P = 100)
           \<and> (pp ''plot_int'' = None \<longrightarrow> p_plot_int P = 10)
           \<and> (pp ''A'' = None \<longrightarrow> p_A P = 1 / 1000)
           \<and> (\<forall>v. pp ''nx'' = Some (PInt v) \<longrightarrow> p_nx P = v)
           \<and> (\<forall>v. pp ''nsteps'' = Some (PInt v) \<longrightarrow> p_nsteps P = v)
           \<and> (\<forall>v. pp ''plot_int'' = Some (PInt v) \<longrightarrow> p_plot_int P = v)
           \<and> (\<forall>v. pp ''A'' = Some (PReal v) \<longrightarrow> p_A P = v)
           \<and> (\<forall>v. pp ''A'' = Some (PInt v) \<longrightarrow> p_A P = real_of_int v)"
proof -
  obtain nx where nx: "query_int pp ''nx'' 16 = Inr nx" "pp ''nx'' = None \<longrightarrow> nx = 16"
      "\<forall>i. pp ''nx'' = Some (PInt i) \<longrightarrow> nx = i"
    using query_int_result [of pp "''nx''" 16] assms(1) by auto
  obtain ns where ns: "query_int pp ''nsteps'' 100 = Inr ns" "pp ''nsteps'' = None \<longrightarrow> ns = 100"
      "\<forall>i. pp ''nsteps'' = Some (PInt i) \<longrightarrow> ns = i"
    using query_int_result [of pp "''nsteps''" 100] assms(2) by auto
  obtain pl where pl: "query_int pp ''plot_int'' 10 = Inr pl" "pp ''plot_int'' = None \<longrightarrow> pl = 10"
      "\<forall>i. pp ''plot_int'' = Some (PInt i) \<longrightarrow> pl = i"
    using query_int_result [of pp "''plot_int''" 10] assms(3) by auto
  obtain ta where ta: "query_real pp ''tau'' tau0 = Inr ta"
    using query_real_result [of pp "''tau''" tau0] by auto
  obtain te where te: "query_real pp ''temperature'' temperature0 = Inr te"
    using query_real_result [of pp "''temperature''" temperature0] by auto
  obtain a where a: "query_real pp ''A'' (1 / 1000) = Inr a" "pp ''A'' = None \<longrightarrow> a = 1 / 1000"
      "\<forall>i. pp ''A'' = Some (PInt i) \<longrightarrow> a = real_of_int i" "\<forall>r. pp ''A'' = Some (PReal r) \<longrightarrow> a = r"
    using query_real_result [of pp "''A''" "1 / 1000"] by auto
  have "read_params tau0 temperature0 pp =
          Inr \<lparr> p_nx = nx, p_nsteps = ns, p_plot_int = pl, p_tau = ta, p_temperature = te, p_A = a \<rparr>"
    by (simp add: read_params_def nx(1) ns(1) pl(1) ta te a(1))
  with nx ns pl a show ?thesis by simp
qed

text \<open>The theorem at an input that sets \<open>nx\<close> and \<open>A\<close> and leaves the rest out.\<close>

theorem read_params_witness:
  "\<exists>P. read_params 1 0 [''nx'' \<mapsto> PInt 32, ''A'' \<mapsto> PReal 2] = Inr P
        \<and> p_nx P = 32 \<and> p_nsteps P = 100 \<and> p_plot_int P = 10 \<and> p_A P = 2"
  using read_params_defaults_and_overrides [of "[''nx'' \<mapsto> PInt 32, ''A'' \<mapsto> PReal 2]" 1 0]
  by auto

subsection \<open>Fields and calls of a pass\<close>

lemma calls_log_call: "calls (log_call e st) = calls st @ [e]"
  by (simp add: log_call_def)

lemma structFactMF_log_call: "structFactMF (log_call e st) = structFactMF st"
  by (simp add: log_call_def)

lemma hydrovars_log_call: "hydrovars (log_call e st) = hydrovars st"
  by (simp add: log_call_def)

lemma fold_mf_log_call: "fold_mf (log_call e st) = fold_mf st"
  by (simp add: log_call_def)

lemma time_log_call: "time (log_call e st) = time st"
  by (simp add: log_call_def)

lemmas log_call_simps =
  calls_log_call structFactMF_log_call hydrovars_log_call fold_mf_log_call time_log_call

lemma advance_simps:
  "structFactMF (advance L P st) = structFactMF st"
  "calls (advance L P st) = calls st"
  "hydrovars (advance L P st) = hydrovars st"
  by (simp_all add: advance_def Let_def)

lemma plot_output_simps:
  "structFactMF (plot_output L P step st) = structFactMF st"
  "fold_mf (plot_output L P step st) = fold_mf st"
  "hydrovars (plot_output L P step st) = hydro_output L (p_nx P) (fold_mf st) (hydrovars st)"
  "calls (plot_output L P step st) =
     calls st @ [WriteSingleLevelPlotfile step (time st) (hydro_output L (p_nx P) (fold_mf st) (hydrovars st)),
                 WritePlotFile step (time st)]"
  by (simp_all add: plot_output_def Let_def log_call_simps)

lemma initial_output_simps:
  "structFactMF (initial_output L P st) = structFactMF st"
  "fold_mf (initial_output L P st) = fold_mf st"
  "hydrovars (initial_output L P st) =
     (if p_plot_int P > 0 then hydro_output0 L (p_nx P) (fold_mf st) (hydrovars st) else hydrovars st)"
  "calls (initial_output L P st) =
     calls st @ (if p_plot_int P > 0
        then [WriteSingleLevelPlotfile 0 (time st) (hydro_output0 L (p_nx P) (fold_mf st) (hydrovars st)),
              FortStructure (structFactMF st), WritePlotFile 0 0]
        else [])"
  by (simp_all add: initial_output_def Let_def log_call_simps)

lemma timestep_simps:
  "structFactMF (timestep L P step st) = structFactMF st"
  "fold_mf (timestep L P step st) = fold_mf (advance L P st)"
  "hydrovars (timestep L P step st) =
     (if p_plot_int P > 0 \<and> step mod p_plot_int P = 0
      then hydro_output L (p_nx P) (fold_mf (advance L P st)) (hydrovars st) else hydrovars st)"
  "calls (timestep L P step st) =
     calls st @ [FortStructure (structFactMF st), Print step] @
       (if p_plot_int P > 0 \<and> step mod p_plot_int P = 0
        then [WriteSingleLevelPlotfile step (real_of_int step)
                (hydro_output L (p_nx P) (fold_mf (advance L P st)) (hydrovars st)),
              WritePlotFile step (real_of_int step)]
        else [])"
  by (simp_all add: timestep_def Let_def log_call_simps plot_output_simps advance_simps)

lemma hydro_cell0_sum:
  "hydro_cell0 n cs f u k = (if k < 3 then (\<Sum>i<n. f i * real_of_int (cs i k)) else u k)"
  unfolding hydro_cell0_def
  by (induction n) (simp_all)

lemma hydro_cell_sum:
  "hydro_cell n cs f u k = (if k = 0 then (\<Sum>i<n. f i * real_of_int (cs i 1)) else u k)"
  unfolding hydro_cell_def
  by (induction n arbitrary: k) (simp_all)

lemma timestep_loop_step:
  "step \<le> p_nsteps P \<Longrightarrow>
     timestep_loop L P step st = timestep_loop L P (step + 1) (timestep L P step st)"
  by (subst timestep_loop.simps) simp

lemma timestep_loop_stop: "\<not> step \<le> p_nsteps P \<Longrightarrow> timestep_loop L P step st = st"
  by (subst timestep_loop.simps) simp

lemma timestep_loop_invariant:
  assumes "Inv st" and "\<And>s t. Inv t \<Longrightarrow> Inv (timestep L P s t)"
  shows "Inv (timestep_loop L P step st)"
  using assms
proof (induction L P step st rule: timestep_loop.induct)
  case (1 L P step st)
  show ?case
  proof (cases "step \<le> p_nsteps P")
    case True
    have "Inv (timestep L P step st)" using "1.prems"(1) by (rule "1.prems"(2))
    then have "Inv (timestep_loop L P (step + 1) (timestep L P step st))"
      using "1.prems"(2) by (rule "1.IH" [OF True])
    then show ?thesis by (simp add: timestep_loop_step [OF True])
  next
    case False
    with 1 show ?thesis by (simp add: timestep_loop_stop)
  qed
qed

subsection \<open>The calls of a run\<close>

lemma start_simps:
  "structFactMF (start L P m1 m2 m3 m4 eng) = setVal0 (p_nx P) structVars m4"
  "fold_mf (start L P m1 m2 m3 m4 eng) = initialize L P m1"
  "hydrovars (start L P m1 m2 m3 m4 eng) =
     (if p_plot_int P > 0 then hydro_output0 L (p_nx P) (initialize L P m1) m3 else m3)"
  "calls (start L P m1 m2 m3 m4 eng) =
     (if p_plot_int P > 0
      then [WriteSingleLevelPlotfile 0 0 (hydro_output0 L (p_nx P) (initialize L P m1) m3),
            FortStructure (setVal0 (p_nx P) structVars m4), WritePlotFile 0 0]
      else [])"
  by (simp_all add: start_def allocate_def Let_def initial_output_simps)

lemma calls_loop_mono: "set (calls st) \<subseteq> set (calls (timestep_loop L P step st))"
  by (rule timestep_loop_invariant [where Inv = "\<lambda>t. set (calls st) \<subseteq> set (calls t)"])
     (auto simp: timestep_simps)

lemma fort_calls_loop:
  assumes "\<forall>g. FortStructure g \<in> set (calls st) \<longrightarrow> g = structFactMF st"
  shows "\<forall>g. FortStructure g \<in> set (calls (timestep_loop L P step st)) \<longrightarrow> g = structFactMF st"
proof -
  have "structFactMF (timestep_loop L P step st) = structFactMF st
      \<and> (\<forall>g. FortStructure g \<in> set (calls (timestep_loop L P step st)) \<longrightarrow> g = structFactMF st)"
    by (rule timestep_loop_invariant [where Inv = "\<lambda>t. structFactMF t = structFactMF st
          \<and> (\<forall>g. FortStructure g \<in> set (calls t) \<longrightarrow> g = structFactMF st)"])
       (use assms in \<open>auto simp: timestep_simps\<close>)
  then show ?thesis by simp
qed

lemma loop_first_step:
  assumes "step \<le> p_nsteps P"
  shows "FortStructure (structFactMF st) \<in> set (calls (timestep_loop L P step st))"
    and "Print step \<in> set (calls (timestep_loop L P step st))"
proof -
  have "set (calls (timestep L P step st)) \<subseteq> set (calls (timestep_loop L P step st))"
    unfolding timestep_loop_step [OF assms] by (rule calls_loop_mono)
  moreover have "FortStructure (structFactMF st) \<in> set (calls (timestep L P step st))"
    "Print step \<in> set (calls (timestep L P step st))"
    by (simp_all add: timestep_simps)
  ultimately show "FortStructure (structFactMF st) \<in> set (calls (timestep_loop L P step st))"
    and "Print step \<in> set (calls (timestep_loop L P step st))" by blast+
qed

lemma loop_plots_step:
  "step \<le> s \<Longrightarrow> s \<le> p_nsteps P \<Longrightarrow> p_plot_int P > 0 \<Longrightarrow> s mod p_plot_int P = 0 \<Longrightarrow>
     \<exists>g. WriteSingleLevelPlotfile s (real_of_int s) g \<in> set (calls (timestep_loop L P step st))"
proof (induction L P step st rule: timestep_loop.induct)
  case (1 L P step st)
  from "1.prems" have le: "step \<le> p_nsteps P" by simp
  show ?case
  proof (cases "step = s")
    case True
    have "set (calls (timestep L P step st)) \<subseteq> set (calls (timestep_loop L P step st))"
      unfolding timestep_loop_step [OF le] by (rule calls_loop_mono)
    moreover have "\<exists>g. WriteSingleLevelPlotfile s (real_of_int s) g \<in> set (calls (timestep L P step st))"
      using "1.prems" True by (auto simp: timestep_simps)
    ultimately show ?thesis by blast
  next
    case False
    with "1.prems" have "step + 1 \<le> s" by simp
    from "1.IH" [OF le this "1.prems"(2,3,4)] show ?thesis
      by (simp add: timestep_loop_step [OF le])
  qed
qed

lemma print_first_step:
  assumes "1 \<le> p_nsteps P"
  shows "Print 1 \<in> set (calls (run L P m1 m2 m3 m4 eng))"
  using loop_first_step(2) [OF assms] by (simp add: run_def)

subsection \<open>The initial field\<close>

lemma d3q19_c_simps:
  "d3q19_c 0 0 = 0" "d3q19_c 0 1 = 0" "d3q19_c 0 2 = 0"
  "d3q19_c 0 (Suc 0) = 0"
  "d3q19_c (Suc 0) 0 = 1" "d3q19_c (Suc 0) (Suc 0) = 0" "d3q19_c (Suc 0) 2 = 0"
  "d3q19_c 2 (Suc 0) = 0" "d3q19_c 3 (Suc 0) = 1" "d3q19_c 4 (Suc 0) = -1"
  "d3q19_c 5 (Suc 0) = 0" "d3q19_c 6 (Suc 0) = 0" "d3q19_c 7 (Suc 0) = 1"
  "d3q19_c 8 (Suc 0) = -1" "d3q19_c 9 (Suc 0) = -1" "d3q19_c 10 (Suc 0) = 1"
  "d3q19_c 11 (Suc 0) = 1" "d3q19_c 12 (Suc 0) = -1" "d3q19_c 13 (Suc 0) = 1"
  "d3q19_c 14 (Suc 0) = -1" "d3q19_c 15 (Suc 0) = 0" "d3q19_c 16 (Suc 0) = 0"
  "d3q19_c 17 (Suc 0) = 0" "d3q19_c 18 (Suc 0) = 0"
  "d3q19_c 1 0 = 1" "d3q19_c 1 1 = 0" "d3q19_c 1 2 = 0"
  "d3q19_c 2 0 = -1" "d3q19_c 2 1 = 0" "d3q19_c 2 2 = 0"
  "d3q19_c 3 0 = 0" "d3q19_c 3 1 = 1" "d3q19_c 3 2 = 0"
  "d3q19_c 4 0 = 0" "d3q19_c 4 1 = -1" "d3q19_c 4 2 = 0"
  "d3q19_c 5 0 = 0" "d3q19_c 5 1 = 0" "d3q19_c 5 2 = 1"
  "d3q19_c 6 0 = 0" "d3q19_c 6 1 = 0" "d3q19_c 6 2 = -1"
  "d3q19_c 7 0 = 1" "d3q19_c 7 1 = 1" "d3q19_c 7 2 = 0"
  "d3q19_c 8 0 = -1" "d3q19_c 8 1 = -1" "d3q19_c 8 2 = 0"
  "d3q19_c 9 0 = 1" "d3q19_c 9 1 = -1" "d3q19_c 9 2 = 0"
  "d3q19_c 10 0 = -1" "d3q19_c 10 1 = 1" "d3q19_c 10 2 = 0"
  "d3q19_c 11 0 = 0" "d3q19_c 11 1 = 1" "d3q19_c 11 2 = 1"
  "d3q19_c 12 0 = 0" "d3q19_c 12 1 = -1" "d3q19_c 12 2 = -1"
  "d3q19_c 13 0 = 0" "d3q19_c 13 1 = 1" "d3q19_c 13 2 = -1"
  "d3q19_c 14 0 = 0" "d3q19_c 14 1 = -1" "d3q19_c 14 2 = 1"
  "d3q19_c 15 0 = 1" "d3q19_c 15 1 = 0" "d3q19_c 15 2 = 1"
  "d3q19_c 16 0 = -1" "d3q19_c 16 1 = 0" "d3q19_c 16 2 = -1"
  "d3q19_c 17 0 = 1" "d3q19_c 17 1 = 0" "d3q19_c 17 2 = -1"
  "d3q19_c 18 0 = -1" "d3q19_c 18 1 = 0" "d3q19_c 18 2 = 1"
  by (simp_all add: d3q19_c_def)

lemma d3q19_w_simps:
  "d3q19_w 0 = 1 / 3" "d3q19_w 1 = 1 / 18" "d3q19_w (Suc 0) = 1 / 18"
  "d3q19_w 2 = 1 / 18" "d3q19_w 3 = 1 / 18"
  "d3q19_w 4 = 1 / 18" "d3q19_w 5 = 1 / 18" "d3q19_w 6 = 1 / 18"
  "d3q19_w 7 = 1 / 36" "d3q19_w 8 = 1 / 36" "d3q19_w 9 = 1 / 36" "d3q19_w 10 = 1 / 36"
  "d3q19_w 11 = 1 / 36" "d3q19_w 12 = 1 / 36" "d3q19_w 13 = 1 / 36" "d3q19_w 14 = 1 / 36"
  "d3q19_w 15 = 1 / 36" "d3q19_w 16 = 1 / 36" "d3q19_w 17 = 1 / 36" "d3q19_w 18 = 1 / 36"
  by (simp_all add: d3q19_w_def)

lemma sum19:
  "(\<Sum>i<19. (g :: nat \<Rightarrow> real) i) = g 0 + g 1 + g 2 + g 3 + g 4 + g 5 + g 6 + g 7 + g 8 + g 9
      + g 10 + g 11 + g 12 + g 13 + g 14 + g 15 + g 16 + g 17 + g 18"
  by (simp add: eval_nat_numeral)

lemma sum3: "(\<Sum>k<3. (g :: nat \<Rightarrow> real) k) = g 0 + g 1 + g 2"
  by (simp add: eval_nat_numeral)

lemma density_equilibrium_d3q19: "density 19 (equilibrium d3q19_c d3q19_w rho u) = rho"
proof -
  obtain ux uy uz where u: "u = (ux, uy, uz)" by (cases u) auto
  show ?thesis
    unfolding density_def sum19 equilibrium_def Let_def sum3 u vec3_def
    by (simp add: d3q19_c_simps d3q19_w_simps algebra_simps)
qed

lemma momentum_equilibrium_d3q19:
  assumes "k < 3"
  shows "momentum 19 d3q19_c (equilibrium d3q19_c d3q19_w rho u) k = rho * vec3 u k"
proof -
  from assms consider "k = 0" | "k = 1" | "k = 2" by linarith
  moreover obtain ux uy uz where u: "u = (ux, uy, uz)" by (cases u) auto
  ultimately show ?thesis
    unfolding momentum_def sum19 equilibrium_def Let_def sum3 u vec3_def
    by cases (simp_all add: d3q19_c_simps d3q19_w_simps, simp_all add: field_simps)
qed

lemma d3q19_header_contract: "equilibrium_contract d3q19_header"
  by (simp add: equilibrium_contract_def d3q19_header_eq density_equilibrium_d3q19
      momentum_equilibrium_d3q19)

lemma hydrovars_start:
  assumes "p_plot_int P > 0" "grown_box (p_nx P) cl" "k < 3"
  shows "hydrovars (start L P m1 m2 m3 m4 eng) cl k =
           momentum (ncomp L) (c L) (fequilibrium L 1 (0, shear_uy P (fst cl), 0)) k"
  using assms
  by (simp add: start_simps hydro_output0_def hydro_cell0_sum initialize_def momentum_def)

text \<open>
  Claim C6. For a header that keeps the contract of the equilibrium, a positive grid
  size and output switched on: before the first step, the field that the driver
  extracts from the initial populations has, at every cell \<open>(x,y,z)\<close> of the grid and
  its ghost layer, the \<open>y\<close> component \<open>A sin(2 \<pi> x / nx)\<close> and zero \<open>x\<close> and \<open>z\<close>
  components; the value does not depend on \<open>y\<close> and \<open>z\<close>. The density of the cell is
  one, so the first moment divided by the density is the same vector. The scenario of
  the claim is the case \<open>nx = 16\<close>, \<open>A = 0.001\<close>.
\<close>

theorem initial_velocity_is_the_shear_wave:
  assumes "equilibrium_contract L" and "p_plot_int P > 0" and "p_nx P > 0"
      and "grown_box (p_nx P) (x, y, z)" and "k < 3"
  shows "hydrovars (start L P m1 m2 m3 m4 eng) (x, y, z) k =
           (if k = 1 then p_A P * sin (2 * pi * real_of_int x / real_of_int (p_nx P)) else 0)
       \<and> velocity (ncomp L) (c L) (fold_mf (start L P m1 m2 m3 m4 eng) (x, y, z)) k =
           (if k = 1 then p_A P * sin (2 * pi * real_of_int x / real_of_int (p_nx P)) else 0)"
proof -
  let ?uy = "p_A P * sin (2 * pi * real_of_int x / real_of_int (p_nx P))"
  let ?f = "fequilibrium L 1 (0, ?uy, 0)"
  have pop: "fold_mf (start L P m1 m2 m3 m4 eng) (x, y, z) i = ?f i" if "i < ncomp L" for i
    using that assms(4) by (simp add: start_simps initialize_def shear_uy_def)
  have dens: "density (ncomp L) (fold_mf (start L P m1 m2 m3 m4 eng) (x, y, z)) = 1"
  proof -
    have "density (ncomp L) (fold_mf (start L P m1 m2 m3 m4 eng) (x, y, z)) = density (ncomp L) ?f"
      unfolding density_def by (rule sum.cong) (simp_all add: pop)
    with assms(1) show ?thesis by (simp add: equilibrium_contract_def)
  qed
  have mom: "momentum (ncomp L) (c L) (fold_mf (start L P m1 m2 m3 m4 eng) (x, y, z)) k
               = vec3 (0, ?uy, 0) k"
  proof -
    have "momentum (ncomp L) (c L) (fold_mf (start L P m1 m2 m3 m4 eng) (x, y, z)) k
            = momentum (ncomp L) (c L) ?f k"
      unfolding momentum_def by (rule sum.cong) (simp_all add: pop)
    with assms(1,5) show ?thesis by (simp add: equilibrium_contract_def)
  qed
  have hyd: "hydrovars (start L P m1 m2 m3 m4 eng) (x, y, z) k = vec3 (0, ?uy, 0) k"
    using hydrovars_start [OF assms(2,4,5), of L m1 m2 m3 m4 eng] assms(1,5)
    by (simp add: equilibrium_contract_def shear_uy_def)
  from assms(5) have v: "vec3 (0, ?uy, 0) k = (if k = 1 then ?uy else 0)"
    by (simp add: vec3_def)
  from dens mom hyd v show ?thesis by (simp add: velocity_def)
qed

text \<open>
  The scenario itself, with the nineteen-direction header: at \<open>x = 4\<close> the sinusoid
  \<open>0.001 sin(2 \<pi> 4 / 16)\<close> is at its crest.
\<close>

theorem initial_velocity_witness:
  "hydrovars (start d3q19_header scenario_params (\<lambda>cl k. 7) (\<lambda>cl k. 7) (\<lambda>cl k. 7) (\<lambda>cl k. 7) 0) (4, 2, 9) 1
      = 1 / 1000
   \<and> velocity 19 d3q19_c
        (fold_mf (start d3q19_header scenario_params (\<lambda>cl k. 7) (\<lambda>cl k. 7) (\<lambda>cl k. 7) (\<lambda>cl k. 7) 0) (4, 2, 9)) 1
      = 1 / 1000"
proof -
  have g: "grown_box (p_nx scenario_params) (4, 2, 9)"
    by (simp add: scenario_params_def grown_box_def in_box_def nghost_def)
  have p: "p_plot_int scenario_params > 0" "p_nx scenario_params > 0"
    by (simp_all add: scenario_params_def)
  have s: "sin (2 * pi * real_of_int 4 / real_of_int 16) = 1"
    using sin_pi_half by simp
  from initial_velocity_is_the_shear_wave [OF d3q19_header_contract p g, of 1
      "\<lambda>cl k. 7" "\<lambda>cl k. 7" "\<lambda>cl k. 7" "\<lambda>cl k. 7" 0]
  show ?thesis
    using s by (simp add: scenario_params_def d3q19_header_eq)
qed

lemma hydrovars_start_d3q19:
  "hydrovars (start d3q19_header scenario_params m1 m2 m3 m4 eng) (4, 0, 0) 1 = 1 / 1000"
proof -
  have g: "grown_box (p_nx scenario_params) (4, 0, 0)"
    by (simp add: scenario_params_def grown_box_def in_box_def nghost_def)
  have p: "p_plot_int scenario_params > 0"
    by (simp add: scenario_params_def)
  have s: "sin (2 * pi * real_of_int 4 / real_of_int 16) = 1"
    using sin_pi_half by simp
  have "hydrovars (start d3q19_header scenario_params m1 m2 m3 m4 eng) (4, 0, 0) 1
          = momentum 19 d3q19_c (equilibrium d3q19_c d3q19_w 1 (0, shear_uy scenario_params 4, 0)) 1"
    using hydrovars_start [OF p g, of 1 d3q19_header m1 m2 m3 m4 eng]
    by (simp add: d3q19_header_eq)
  also have "\<dots> = shear_uy scenario_params 4"
    by (simp add: momentum_equilibrium_d3q19 vec3_def)
  also have "\<dots> = 1 / 1000"
    using s by (simp add: shear_uy_def scenario_params_def)
  finally show ?thesis .
qed

subsection \<open>What the structure factor receives\<close>

text \<open>
  Claim C1 asks that the field handed to the structure factor at step \<open>n\<close> is the
  velocity field of step \<open>n\<close>. The driver hands over \<open>structFactMF\<close>, which it sets to
  zero at line 77 and never writes again: every field that \<open>FortStructure\<close> receives
  during a run is zero on every cell of the domain and every one of its three
  components, whatever the populations are.
\<close>

theorem fort_structure_gets_zero_field:
  assumes "FortStructure g \<in> set (calls (run L P m1 m2 m3 m4 eng))"
      and "valid_box (p_nx P) cl" and "k < structVars"
  shows "g cl k = 0"
proof -
  let ?st = "start L P m1 m2 m3 m4 eng"
  have "\<forall>g. FortStructure g \<in> set (calls ?st) \<longrightarrow> g = structFactMF ?st"
    by (simp add: start_simps)
  from fort_calls_loop [OF this, of L P 1] assms(1)
  have "g = setVal0 (p_nx P) structVars m4"
    by (simp add: run_def start_simps)
  with assms(2,3) show ?thesis by (simp add: setVal0_def)
qed

lemma fort_call_made:
  assumes "1 \<le> p_nsteps P"
  shows "FortStructure (setVal0 (p_nx P) structVars m4) \<in> set (calls (run L P m1 m2 m3 m4 eng))"
  using loop_first_step(1) [OF assms, where L = L and st = "start L P m1 m2 m3 m4 eng"]
  by (simp add: run_def start_simps)

text \<open>
  In the scenario of the specification the call is made, and the field it receives is
  zero at the cell \<open>(4,0,0)\<close> in the \<open>y\<close> component, where the velocity field written to
  the plot file of the initial data has the amplitude 0.001.
\<close>

theorem fort_structure_witness:
  "FortStructure (setVal0 16 structVars (\<lambda>cl k. 7))
       \<in> set (calls (run d3q19_header scenario_params (\<lambda>cl k. 7) (\<lambda>cl k. 7) (\<lambda>cl k. 7) (\<lambda>cl k. 7) 0))
   \<and> valid_box (p_nx scenario_params) (4, 0, 0) \<and> (1::nat) < structVars
   \<and> setVal0 16 structVars (\<lambda>cl k. 7) (4, 0, 0) 1 = 0
   \<and> hydrovars (start d3q19_header scenario_params (\<lambda>cl k. 7) (\<lambda>cl k. 7) (\<lambda>cl k. 7) (\<lambda>cl k. 7) 0)
         (4, 0, 0) 1 = 1 / 1000"
proof -
  have a: "FortStructure (setVal0 16 structVars (\<lambda>cl k. 7))
       \<in> set (calls (run d3q19_header scenario_params (\<lambda>cl k. 7) (\<lambda>cl k. 7) (\<lambda>cl k. 7) (\<lambda>cl k. 7) 0))"
    using fort_call_made [where P = scenario_params and ?m4.0 = "\<lambda>cl k. 7" and L = d3q19_header]
    by (simp add: scenario_params_def)
  have b: "valid_box (p_nx scenario_params) (4, 0, 0)"
    by (simp add: scenario_params_def valid_box_def in_box_def)
  have c: "(1::nat) < structVars" by (simp add: structVars_def)
  from fort_structure_gets_zero_field [OF a b c] a b c
    hydrovars_start_d3q19 [of "\<lambda>cl k. 7" "\<lambda>cl k. 7" "\<lambda>cl k. 7" "\<lambda>cl k. 7" 0]
  show ?thesis by simp
qed

subsection \<open>What the later plot files hold\<close>

lemma run_plots_step:
  assumes "1 \<le> s" "s \<le> p_nsteps P" "p_plot_int P > 0" "s mod p_plot_int P = 0"
  shows "\<exists>g. WriteSingleLevelPlotfile s (real_of_int s) g \<in> set (calls (run L P m1 m2 m3 m4 eng))"
  unfolding run_def by (rule loop_plots_step [OF assms])

lemma plotfiles_loop_frame:
  assumes "\<forall>s t g. WriteSingleLevelPlotfile s t g \<in> set (calls st) \<longrightarrow> (\<forall>cl k. k \<noteq> 0 \<longrightarrow> g cl k = hydrovars st cl k)"
  shows "\<forall>s t g. WriteSingleLevelPlotfile s t g \<in> set (calls (timestep_loop L P step st)) \<longrightarrow>
           (\<forall>cl k. k \<noteq> 0 \<longrightarrow> g cl k = hydrovars st cl k)"
proof -
  let ?Inv = "\<lambda>t :: driver_state. (\<forall>cl k. k \<noteq> 0 \<longrightarrow> hydrovars t cl k = hydrovars st cl k)
      \<and> (\<forall>s u g. WriteSingleLevelPlotfile s u g \<in> set (calls t) \<longrightarrow>
            (\<forall>cl k. k \<noteq> 0 \<longrightarrow> g cl k = hydrovars st cl k))"
  have "?Inv (timestep_loop L P step st)"
  proof (rule timestep_loop_invariant [where Inv = ?Inv])
    show "?Inv st" using assms by simp
  next
    fix s t
    assume inv: "?Inv t"
    show "?Inv (timestep L P s t)"
      using inv by (auto simp: timestep_simps hydro_output_def hydro_cell_sum)
  qed
  then show ?thesis by blast
qed

text \<open>
  Claim C3 asks that all three components are recomputed at every output step. The
  output of the initial data does so; the output of a later step (lines 141 to 144)
  writes component 0 only. Every hydrodynamic field that a run writes to a plot file
  therefore carries, in its components 1 and 2, the values of the state before the
  first step.
\<close>

theorem later_plotfiles_keep_initial_components:
  assumes "WriteSingleLevelPlotfile step t g \<in> set (calls (run L P m1 m2 m3 m4 eng))"
      and "k \<noteq> 0"
  shows "g cl k = hydrovars (start L P m1 m2 m3 m4 eng) cl k"
proof -
  let ?st = "start L P m1 m2 m3 m4 eng"
  have "\<forall>s t g. WriteSingleLevelPlotfile s t g \<in> set (calls ?st) \<longrightarrow>
          (\<forall>cl k. k \<noteq> 0 \<longrightarrow> g cl k = hydrovars ?st cl k)"
    by (simp add: start_simps)
  from plotfiles_loop_frame [OF this, of L P 1] assms show ?thesis
    unfolding run_def by blast
qed

text \<open>
  In the scenario of the specification the plot file of step 10 still holds the
  initial amplitude 0.001 in component 1 at \<open>x = 4\<close>, whatever the kernel has done to
  the populations in ten steps.
\<close>

theorem later_plotfiles_witness:
  "\<exists>g. WriteSingleLevelPlotfile 10 10 g
          \<in> set (calls (run d3q19_header scenario_params (\<lambda>cl k. 0) (\<lambda>cl k. 0) (\<lambda>cl k. 0) (\<lambda>cl k. 0) 0))
      \<and> g (4, 0, 0) 1 = 1 / 1000"
proof -
  obtain g where g: "WriteSingleLevelPlotfile 10 10 g
          \<in> set (calls (run d3q19_header scenario_params (\<lambda>cl k. 0) (\<lambda>cl k. 0) (\<lambda>cl k. 0) (\<lambda>cl k. 0) 0))"
    using run_plots_step [of 10 scenario_params d3q19_header "\<lambda>cl k. 0" "\<lambda>cl k. 0" "\<lambda>cl k. 0" "\<lambda>cl k. 0" 0]
    by (auto simp: scenario_params_def)
  have "g (4, 0, 0) 1 = 1 / 1000"
    using later_plotfiles_keep_initial_components [OF g, of 1 "(4, 0, 0)"]
      hydrovars_start_d3q19 [of "\<lambda>cl k. 0" "\<lambda>cl k. 0" "\<lambda>cl k. 0" "\<lambda>cl k. 0" 0]
    by simp
  with g show ?thesis by blast
qed

text \<open>
  Claim C10. In a pass of the time step loop that is an output step, the hydrodynamic
  record of a cell changes in component 0 only, and only for the cells of the grid
  and its ghost layer: component 0 receives the sum of \<open>f\<^sub>i c[i][1]\<close> over the
  populations of the cell as they are after the step, and every other entry keeps the
  value it had before the pass.
\<close>

theorem later_output_writes_component_0_only:
  assumes "p_plot_int P > 0" and "step mod p_plot_int P = 0"
  shows "hydrovars (timestep L P step st) cl k =
           (if grown_box (p_nx P) cl \<and> k = 0
            then (\<Sum>i<ncomp L. fold_mf (timestep L P step st) cl i * real_of_int (c L i 1))
            else hydrovars st cl k)"
  using assms by (simp add: timestep_simps hydro_output_def hydro_cell_sum)

text \<open>Step 10 of the scenario leaves component 2 of cell \<open>(4,0,0)\<close> as it was.\<close>

theorem later_output_witness:
  "hydrovars (timestep d3q19_header scenario_params 10
      (allocate scenario_params (\<lambda>cl k. 7) (\<lambda>cl k. 7) (\<lambda>cl k. 7) (\<lambda>cl k. 7) 0)) (4, 0, 0) 2 = 7"
  using later_output_writes_component_0_only [of scenario_params 10 d3q19_header
      "allocate scenario_params (\<lambda>cl k. 7) (\<lambda>cl k. 7) (\<lambda>cl k. 7) (\<lambda>cl k. 7) 0" "(4, 0, 0)" 2]
  by (simp add: scenario_params_def allocate_def)

subsection \<open>What setup checks\<close>

lemma query_int_in_table:
  assumes "pp k = None \<or> (\<exists>v. pp k = Some (PInt v) \<and> lo \<le> v \<and> v \<le> hi)" and "lo \<le> d" and "d \<le> hi"
  shows "\<exists>v. query_int pp k d = Inr v \<and> lo \<le> v \<and> v \<le> hi"
  using assms by (auto simp: query_int_def)

text \<open>
  Claim C7, amended. A relaxation time outside the stable range or a negative
  temperature does not make setup reject the run. When the grid size and the step
  count are absent or positive integers of the range of \<open>int\<close>, and the output cadence
  is absent or an integer of that range, then for every pair of values given for
  \<open>tau\<close> and \<open>temperature\<close> the driver takes both as supplied and the time step loop makes
  its first step. What becomes of a run with a non-positive grid size is decided
  where AMReX builds the box, outside the sources; the statement leaves it open.
\<close>

theorem out_of_range_tau_and_temperature_run:
  assumes "pp ''tau'' = Some (PReal t)" and "pp ''temperature'' = Some (PReal T)"
      and "pp ''nx'' = None \<or> (\<exists>v. pp ''nx'' = Some (PInt v) \<and> 1 \<le> v \<and> v \<le> 2147483647)"
      and "pp ''nsteps'' = None \<or> (\<exists>v. pp ''nsteps'' = Some (PInt v) \<and> 1 \<le> v \<and> v \<le> 2147483647)"
      and "pp ''plot_int'' = None
             \<or> (\<exists>v. pp ''plot_int'' = Some (PInt v) \<and> - 2147483648 \<le> v \<and> v \<le> 2147483647)"
  shows "\<exists>P. main_driver L pp m1 m2 m3 m4 eng = Inr (run L P m1 m2 m3 m4 eng)
           \<and> p_tau P = t \<and> p_temperature P = T \<and> 1 \<le> p_nx P
           \<and> Print 1 \<in> set (calls (run L P m1 m2 m3 m4 eng))"
proof -
  obtain nx where nx: "query_int pp ''nx'' 16 = Inr nx" "1 \<le> nx"
    using query_int_in_table [of pp "''nx''" 1 2147483647 16] assms(3) by auto
  obtain ns where ns: "query_int pp ''nsteps'' 100 = Inr ns" "1 \<le> ns"
    using query_int_in_table [of pp "''nsteps''" 1 2147483647 100] assms(4) by auto
  obtain pl where pl: "query_int pp ''plot_int'' 10 = Inr pl"
    using query_int_in_table [of pp "''plot_int''" "- 2147483648" 2147483647 10] assms(5) by auto
  obtain a where a: "query_real pp ''A'' (1 / 1000) = Inr a"
    using query_real_result [of pp "''A''" "1 / 1000"] by auto
  have ta: "query_real pp ''tau'' (tau_init L) = Inr t"
    and te: "query_real pp ''temperature'' (temperature_init L) = Inr T"
    by (simp_all add: query_real_def assms(1,2))
  let ?P = "\<lparr> p_nx = nx, p_nsteps = ns, p_plot_int = pl, p_tau = t, p_temperature = T, p_A = a \<rparr>"
  have "read_params (tau_init L) (temperature_init L) pp = Inr ?P"
    by (simp add: read_params_def nx(1) ns(1) pl a ta te)
  then have "main_driver L pp m1 m2 m3 m4 eng = Inr (run L ?P m1 m2 m3 m4 eng)"
    by (simp add: main_driver_def)
  moreover have "Print 1 \<in> set (calls (run L ?P m1 m2 m3 m4 eng))"
    by (rule print_first_step) (simp add: ns(2))
  ultimately show ?thesis using nx(2) by (intro exI [of _ ?P]) simp
qed

text \<open>
  The theorem at relaxation time 0.25 and temperature -1, every other key left out.
\<close>

theorem out_of_range_witness:
  "\<exists>P. main_driver d3q19_header [''tau'' \<mapsto> PReal (1 / 4), ''temperature'' \<mapsto> PReal (- 1)]
          (\<lambda>cl k. 0) (\<lambda>cl k. 0) (\<lambda>cl k. 0) (\<lambda>cl k. 0) 0
        = Inr (run d3q19_header P (\<lambda>cl k. 0) (\<lambda>cl k. 0) (\<lambda>cl k. 0) (\<lambda>cl k. 0) 0)
      \<and> p_tau P = 1 / 4 \<and> p_temperature P = - 1 \<and> 1 \<le> p_nx P
      \<and> Print 1 \<in> set (calls (run d3q19_header P (\<lambda>cl k. 0) (\<lambda>cl k. 0) (\<lambda>cl k. 0) (\<lambda>cl k. 0) 0))"
  using out_of_range_tau_and_temperature_run [of
      "[''tau'' \<mapsto> PReal (1 / 4), ''temperature'' \<mapsto> PReal (- 1)]" "1 / 4" "- 1"
      d3q19_header "\<lambda>cl k. 0" "\<lambda>cl k. 0" "\<lambda>cl k. 0" "\<lambda>cl k. 0" 0]
  by simp

text \<open>
  Claim C7 as stated fails: with relaxation time 0.25 and temperature -1, and the
  default grid size 16, the driver is not stopped at setup; it runs and makes its
  first step.
\<close>

theorem out_of_range_parameters_are_accepted:
  "main_driver d3q19_header [''tau'' \<mapsto> PReal (1 / 4), ''temperature'' \<mapsto> PReal (- 1)]
      (\<lambda>cl k. 0) (\<lambda>cl k. 0) (\<lambda>cl k. 0) (\<lambda>cl k. 0) 0
    = Inr (run d3q19_header
        \<lparr> p_nx = 16, p_nsteps = 100, p_plot_int = 10, p_tau = 1 / 4, p_temperature = - 1, p_A = 1 / 1000 \<rparr>
        (\<lambda>cl k. 0) (\<lambda>cl k. 0) (\<lambda>cl k. 0) (\<lambda>cl k. 0) 0)
   \<and> Print 1 \<in> set (calls (run d3q19_header
        \<lparr> p_nx = 16, p_nsteps = 100, p_plot_int = 10, p_tau = 1 / 4, p_temperature = - 1, p_A = 1 / 1000 \<rparr>
        (\<lambda>cl k. 0) (\<lambda>cl k. 0) (\<lambda>cl k. 0) (\<lambda>cl k. 0) 0))"
proof -
  have "Print 1 \<in> set (calls (run d3q19_header
        \<lparr> p_nx = 16, p_nsteps = 100, p_plot_int = 10, p_tau = 1 / 4, p_temperature = - 1, p_A = 1 / 1000 \<rparr>
        (\<lambda>cl k. 0) (\<lambda>cl k. 0) (\<lambda>cl k. 0) (\<lambda>cl k. 0) 0))"
    by (rule print_first_step) simp
  then show ?thesis
    by (simp add: main_driver_def read_params_def query_int_def query_real_def d3q19_header_eq)
qed

section \<open>Properties of the lattice model\<close>

subsection \<open>Streaming\<close>

lemma wrap_in_grid: "0 < nx \<Longrightarrow> wrap nx cl \<in> grid nx"
  by (cases cl) (simp add: wrap_def grid_def)

lemma wrap_shift_unshift:
  assumes "0 < nx" "cl \<in> grid nx"
  shows "wrap nx (shift cs i (wrap nx (unshift cs i cl))) = cl"
proof -
  obtain x y z where cl: "cl = (x, y, z)" by (cases cl) auto
  have r: "((a - b) mod nx + b) mod nx = a" if "0 \<le> a" "a < nx" for a b :: int
  proof -
    have "((a - b) mod nx + b) mod nx = (a - b + b) mod nx" by (rule mod_add_left_eq)
    with that show ?thesis by simp
  qed
  from assms(2) show ?thesis
    by (simp add: cl grid_def wrap_def shift_def unshift_def r)
qed

lemma wrap_unshift_shift:
  assumes "0 < nx" "cl \<in> grid nx"
  shows "wrap nx (unshift cs i (wrap nx (shift cs i cl))) = cl"
proof -
  obtain x y z where cl: "cl = (x, y, z)" by (cases cl) auto
  have r: "((a + b) mod nx - b) mod nx = a" if "0 \<le> a" "a < nx" for a b :: int
  proof -
    have "((a + b) mod nx - b) mod nx = (a + b - b) mod nx" by (rule mod_diff_left_eq)
    with that show ?thesis by simp
  qed
  from assms(2) show ?thesis
    by (simp add: cl grid_def wrap_def shift_def unshift_def r)
qed

lemma pull_bij:
  assumes "0 < nx"
  shows "bij_betw (\<lambda>cl. wrap nx (unshift cs i cl)) (grid nx) (grid nx)"
  by (rule bij_betw_byWitness [where f' = "\<lambda>cl. wrap nx (shift cs i cl)"])
     (auto simp: wrap_in_grid assms wrap_shift_unshift wrap_unshift_shift)

text \<open>Streaming as section 4.4 words it: the population arrives at the wrapped neighbour.\<close>

lemma stream_push:
  assumes "0 < nx" "cl \<in> grid nx"
  shows "stream nx cs f (wrap nx (shift cs i cl)) i = f cl i"
  by (simp add: stream_def wrap_unshift_shift [OF assms])

text \<open>
  The driver prepares this wrap with \<open>FillBoundary\<close>: for a cell of the grid and a
  direction with components between -1 and 1, the neighbour read in the field with
  filled ghost layer is the population that streaming brings to the cell.
\<close>

lemma ghost_read_is_wrap:
  assumes "0 < nx" and "valid_box nx cl" and "\<forall>k<3. \<bar>cs i k\<bar> \<le> 1"
  shows "FillBoundary nx f (unshift cs i cl) i = stream nx cs f cl i"
proof -
  obtain x y z where cl: "cl = (x, y, z)" by (cases cl) auto
  from assms(3) have c: "\<bar>cs i 0\<bar> \<le> 1" "\<bar>cs i 1\<bar> \<le> 1" "\<bar>cs i 2\<bar> \<le> 1" by simp_all
  have g: "grown_box nx (unshift cs i cl)"
    using assms(2) c by (auto simp: cl unshift_def grown_box_def valid_box_def in_box_def nghost_def)
  have v: "wrap nx (unshift cs i cl) = unshift cs i cl" if "valid_box nx (unshift cs i cl)"
    using that by (simp add: cl unshift_def wrap_def valid_box_def in_box_def)
  have "FillBoundary nx f (unshift cs i cl) i = f (wrap nx (unshift cs i cl)) i"
    using g v by (simp add: FillBoundary_def)
  then show ?thesis by (simp add: stream_def)
qed

lemma stream_sum:
  assumes "0 < nx"
  shows "(\<Sum>cl\<in>grid nx. g i (stream nx cs f cl i)) = (\<Sum>cl\<in>grid nx. g i (f cl i))"
  unfolding stream_def
  by (rule sum.reindex_bij_betw [OF pull_bij [OF assms], where g = "\<lambda>cl. g i (f cl i)"])

text \<open>
  Claim C5. On a grid of positive size, one streaming pass leaves the total mass and
  every component of the total momentum of the periodic grid unchanged, for every
  field; the map that sends the population of direction \<open>i\<close> of a cell to the wrapped
  neighbour in direction \<open>i\<close> is a bijection on the pairs of cell and direction.
\<close>

theorem streaming_conserves_totals:
  assumes "0 < nx"
  shows "total_mass nx n (stream nx cs f) = total_mass nx n f
       \<and> total_momentum nx n cs (stream nx cs f) k = total_momentum nx n cs f k
       \<and> bij_betw (\<lambda>(cl, i). (wrap nx (shift cs i cl), i)) (grid nx \<times> {..<n}) (grid nx \<times> {..<n})"
proof -
  have "total_mass nx n (stream nx cs f) = (\<Sum>i<n. \<Sum>cl\<in>grid nx. stream nx cs f cl i)"
    unfolding total_mass_def density_def by (rule sum.swap)
  also have "\<dots> = (\<Sum>i<n. \<Sum>cl\<in>grid nx. f cl i)"
    by (rule sum.cong) (simp_all add: stream_sum [OF assms, where g = "\<lambda>i v. v"])
  also have "\<dots> = total_mass nx n f"
    unfolding total_mass_def density_def by (rule sum.swap)
  finally have mass: "total_mass nx n (stream nx cs f) = total_mass nx n f" .
  have "total_momentum nx n cs (stream nx cs f) k
          = (\<Sum>i<n. \<Sum>cl\<in>grid nx. stream nx cs f cl i * real_of_int (cs i k))"
    unfolding total_momentum_def momentum_def by (rule sum.swap)
  also have "\<dots> = (\<Sum>i<n. \<Sum>cl\<in>grid nx. f cl i * real_of_int (cs i k))"
    by (rule sum.cong)
       (simp_all add: stream_sum [OF assms, where g = "\<lambda>i v. v * real_of_int (cs i k)"])
  also have "\<dots> = total_momentum nx n cs f k"
    unfolding total_momentum_def momentum_def by (rule sum.swap)
  finally have mom: "total_momentum nx n cs (stream nx cs f) k = total_momentum nx n cs f k" .
  have bij: "bij_betw (\<lambda>(cl, i). (wrap nx (shift cs i cl), i)) (grid nx \<times> {..<n}) (grid nx \<times> {..<n})"
    by (rule bij_betw_byWitness [where f' = "\<lambda>(cl, i). (wrap nx (unshift cs i cl), i)"])
       (auto simp: wrap_in_grid assms wrap_shift_unshift wrap_unshift_shift)
  from mass mom bij show ?thesis by simp
qed

text \<open>The initial field of the scenario on its grid of size 16.\<close>

theorem streaming_witness:
  "total_mass 16 19 (stream 16 d3q19_c (initialize d3q19_header scenario_params (\<lambda>cl i. 0)))
     = total_mass 16 19 (initialize d3q19_header scenario_params (\<lambda>cl i. 0))
   \<and> total_momentum 16 19 d3q19_c (stream 16 d3q19_c (initialize d3q19_header scenario_params (\<lambda>cl i. 0))) 1
     = total_momentum 16 19 d3q19_c (initialize d3q19_header scenario_params (\<lambda>cl i. 0)) 1"
  using streaming_conserves_totals [of 16 19 d3q19_c "initialize d3q19_header scenario_params (\<lambda>cl i. 0)" 1]
  by simp

subsection \<open>Collision\<close>

lemma to_moments_from_moments:
  assumes "conserving_basis M" "j < nconserved"
  shows "to_moments M (from_moments M m) j = m j"
proof -
  let ?n = "ndir M"
  from assms have jn: "j < ?n" by (simp add: conserving_basis_def)
  have "to_moments M (from_moments M m) j
          = (\<Sum>i<?n. \<Sum>k<?n. mbasis M j i * (wts M i * mbasis M k i / mnorm M k * m k))"
    by (simp add: to_moments_def from_moments_def sum_distrib_left)
  also have "\<dots> = (\<Sum>k<?n. \<Sum>i<?n. mbasis M j i * (wts M i * mbasis M k i / mnorm M k * m k))"
    by (rule sum.swap)
  also have "\<dots> = (\<Sum>k<?n. (\<Sum>i<?n. wts M i * mbasis M j i * mbasis M k i) / mnorm M k * m k)"
  proof (rule sum.cong)
    fix k
    have "(\<Sum>i<?n. mbasis M j i * (wts M i * mbasis M k i / mnorm M k * m k))
            = (\<Sum>i<?n. (wts M i * mbasis M j i * mbasis M k i) * (m k / mnorm M k))"
      by (rule sum.cong) simp_all
    also have "\<dots> = (\<Sum>i<?n. wts M i * mbasis M j i * mbasis M k i) * (m k / mnorm M k)"
      by (rule sum_distrib_right [symmetric])
    finally show "(\<Sum>i<?n. mbasis M j i * (wts M i * mbasis M k i / mnorm M k * m k))
            = (\<Sum>i<?n. wts M i * mbasis M j i * mbasis M k i) / mnorm M k * m k"
      by simp
  qed simp
  also have "\<dots> = (\<Sum>k<?n. if k = j then m j else 0)"
  proof (rule sum.cong)
    fix k assume "k \<in> {..<?n}"
    then have kn: "k < ?n" by simp
    show "(\<Sum>i<?n. wts M i * mbasis M j i * mbasis M k i) / mnorm M k * m k = (if k = j then m j else 0)"
    proof (cases "k = j")
      case True
      from assms have "mnorm M j \<noteq> 0" by (simp add: conserving_basis_def)
      with True show ?thesis by (simp add: mnorm_def)
    next
      case False
      with assms kn have "(\<Sum>i<?n. wts M i * mbasis M j i * mbasis M k i) = 0"
        by (auto simp: conserving_basis_def)
      with False show ?thesis by simp
    qed
  qed simp
  also have "\<dots> = m j" using jn by simp
  finally show ?thesis .
qed

lemma to_moments_collide:
  assumes "conserving_basis M" "j < nconserved"
  shows "to_moments M (collide M tau T xi f) j = to_moments M f j"
proof -
  let ?n = "ndir M"
  define feq where "feq = equilibrium (dirs M) (wts M) (density ?n f)
      (velocity ?n (dirs M) f 0, velocity ?n (dirs M) f 1, velocity ?n (dirs M) f 2)"
  define m where "m = to_moments M (\<lambda>i. f i - feq i)"
  define m' where "m' = (\<lambda>k. (1 - relax_rate tau k) * m k
                     + (if T > 0 \<and> nconserved \<le> k
                        then sqrt (T * relax_rate tau k * (2 - relax_rate tau k)) * xi k
                        else 0))"
  have c: "collide M tau T xi f = (\<lambda>i. feq i + from_moments M m' i)"
    by (simp add: collide_def Let_def feq_def m_def m'_def)
  have lin: "to_moments M (\<lambda>i. a i + b i) j = to_moments M a j + to_moments M b j" for a b
    by (simp add: to_moments_def algebra_simps sum.distrib)
  have lin2: "to_moments M (\<lambda>i. a i - b i) j = to_moments M a j - to_moments M b j" for a b
    by (simp add: to_moments_def algebra_simps sum_subtractf)
  have "m' j = m j" using assms(2) by (simp add: m'_def relax_rate_def)
  then have "to_moments M (from_moments M m') j = to_moments M f j - to_moments M feq j"
    using to_moments_from_moments [OF assms, of m'] by (simp add: m_def lin2)
  then show ?thesis
    unfolding c by (simp add: lin)
qed

lemma density_to_moments:
  assumes "conserving_basis M"
  shows "density (ndir M) g = to_moments M g 0"
  unfolding density_def to_moments_def
  by (rule sum.cong) (use assms in \<open>simp_all add: conserving_basis_def\<close>)

lemma momentum_to_moments:
  assumes "conserving_basis M" "k < 3"
  shows "momentum (ndir M) (dirs M) g k = to_moments M g (Suc k)"
  unfolding momentum_def to_moments_def
  by (rule sum.cong) (use assms in \<open>simp_all add: conserving_basis_def\<close>)

text \<open>
  Claim C4. For a lattice model whose basis has the conserved moments as its first
  rows, collision leaves the density and the three components of the momentum of
  every population vector unchanged, for every relaxation time, every temperature
  and every draw of random numbers. The equality is exact over the reals, so it
  holds within every tolerance.
\<close>

theorem collision_conserves_moments:
  assumes "conserving_basis M"
  shows "density (ndir M) (collide M tau T xi f) = density (ndir M) f
       \<and> (\<forall>k<3. momentum (ndir M) (dirs M) (collide M tau T xi f) k = momentum (ndir M) (dirs M) f k)"
proof -
  have "to_moments M (collide M tau T xi f) 0 = to_moments M f 0"
    by (rule to_moments_collide [OF assms]) (simp add: nconserved_def)
  moreover have "to_moments M (collide M tau T xi f) (Suc k) = to_moments M f (Suc k)" if "k < 3" for k
    by (rule to_moments_collide [OF assms]) (use that in \<open>simp add: nconserved_def\<close>)
  ultimately show ?thesis
    by (simp add: density_to_moments [OF assms] momentum_to_moments [OF assms])
qed

lemma lt19_cases:
  assumes "k < (19::nat)"
  obtains "k = 0" | "k = 1" | "k = 2" | "k = 3" | "k = 4" | "k = 5" | "k = 6" | "k = 7" | "k = 8"
    | "k = 9" | "k = 10" | "k = 11" | "k = 12" | "k = 13" | "k = 14" | "k = 15" | "k = 16"
    | "k = 17" | "k = 18"
proof -
  have a: "k = 0 \<or> k = 1 \<or> k = 2 \<or> k = 3 \<or> k = 4 \<or> k = 5 \<or> k = 6" if "k < 7"
    using that by linarith
  have b: "k = 7 \<or> k = 8 \<or> k = 9 \<or> k = 10 \<or> k = 11 \<or> k = 12" if "7 \<le> k" "k < 13"
    using that by linarith
  have c: "k = 13 \<or> k = 14 \<or> k = 15 \<or> k = 16 \<or> k = 17 \<or> k = 18" if "13 \<le> k" "k < 19"
    using that by linarith
  from assms have "k < 7 \<or> (7 \<le> k \<and> k < 13) \<or> (13 \<le> k \<and> k < 19)" by linarith
  with a b c that show ?thesis by blast
qed

lemma d3q19_orth0:
  assumes "k < 19" "k \<noteq> 0"
  shows "(\<Sum>i<19. d3q19_w i * d3q19_e 0 i * d3q19_e k i) = 0"
  using assms(1)
proof (cases rule: lt19_cases)
  case 1
  with assms(2) show ?thesis by simp
qed (simp_all add: sum19 d3q19_e_def Let_def d3q19_c_simps d3q19_w_simps)

lemma d3q19_orth1:
  assumes "k < 19" "k \<noteq> 1"
  shows "(\<Sum>i<19. d3q19_w i * d3q19_e 1 i * d3q19_e k i) = 0"
  using assms(1)
proof (cases rule: lt19_cases)
  case 2
  with assms(2) show ?thesis by simp
qed (simp_all add: sum19 d3q19_e_def Let_def d3q19_c_simps d3q19_w_simps)

lemma d3q19_orth2:
  assumes "k < 19" "k \<noteq> 2"
  shows "(\<Sum>i<19. d3q19_w i * d3q19_e 2 i * d3q19_e k i) = 0"
  using assms(1)
proof (cases rule: lt19_cases)
  case 3
  with assms(2) show ?thesis by simp
qed (simp_all add: sum19 d3q19_e_def Let_def d3q19_c_simps d3q19_w_simps)

lemma d3q19_orth3:
  assumes "k < 19" "k \<noteq> 3"
  shows "(\<Sum>i<19. d3q19_w i * d3q19_e 3 i * d3q19_e k i) = 0"
  using assms(1)
proof (cases rule: lt19_cases)
  case 4
  with assms(2) show ?thesis by simp
qed (simp_all add: sum19 d3q19_e_def Let_def d3q19_c_simps d3q19_w_simps)

lemma lt4_cases:
  assumes "j < (4::nat)"
  obtains "j = 0" | "j = 1" | "j = 2" | "j = 3"
  using assms by linarith

lemma d3q19_norms:
  "mnorm d3q19 0 = 1" "mnorm d3q19 1 = 1 / 3" "mnorm d3q19 2 = 1 / 3" "mnorm d3q19 3 = 1 / 3"
  by (simp_all add: mnorm_def d3q19_def sum19 d3q19_e_def Let_def d3q19_c_simps d3q19_w_simps)

lemma d3q19_rows:
  "d3q19_e 0 i = 1"
  "k < 3 \<Longrightarrow> d3q19_e (Suc k) i = real_of_int (d3q19_c i k)"
proof -
  show "d3q19_e 0 i = 1" by (simp add: d3q19_e_def)
  assume "k < 3"
  then consider "k = 0" | "k = 1" | "k = 2" by linarith
  then show "d3q19_e (Suc k) i = real_of_int (d3q19_c i k)"
    by cases (simp_all add: d3q19_e_def Let_def)
qed

lemma d3q19_conserving: "conserving_basis d3q19"
proof -
  have orth: "(\<Sum>i<19. d3q19_w i * d3q19_e j i * d3q19_e k i) = 0"
    if "j < nconserved" "k < 19" "j \<noteq> k" for j k
  proof -
    from that(1) have "j < 4" by (simp add: nconserved_def)
    then consider "j = 0" | "j = 1" | "j = 2" | "j = 3" by (rule lt4_cases)
    then show ?thesis
      using that(2,3) d3q19_orth0 [of k] d3q19_orth1 [of k] d3q19_orth2 [of k] d3q19_orth3 [of k]
      by cases auto
  qed
  have norm: "mnorm d3q19 j \<noteq> 0" if "j < nconserved" for j
  proof -
    from that have "j < 4" by (simp add: nconserved_def)
    then consider "j = 0" | "j = 1" | "j = 2" | "j = 3" by (rule lt4_cases)
    then show ?thesis using d3q19_norms by cases auto
  qed
  show ?thesis
    unfolding conserving_basis_def
    using orth norm by (simp add: d3q19_def d3q19_rows nconserved_def)
qed

text \<open>
  The model of nineteen directions, at relaxation time one and a positive
  temperature, collides the equilibrium of the shear wave.
\<close>

theorem collision_witness:
  "density 19 (collide d3q19 1 (1 / 3) (draw 5) (equilibrium d3q19_c d3q19_w 1 (0, 1 / 1000, 0)))
     = density 19 (equilibrium d3q19_c d3q19_w 1 (0, 1 / 1000, 0))
   \<and> momentum 19 d3q19_c (collide d3q19 1 (1 / 3) (draw 5) (equilibrium d3q19_c d3q19_w 1 (0, 1 / 1000, 0))) 1
     = momentum 19 d3q19_c (equilibrium d3q19_c d3q19_w 1 (0, 1 / 1000, 0)) 1"
  using collision_conserves_moments [OF d3q19_conserving, of 1 "1 / 3" "draw 5"
      "equilibrium d3q19_c d3q19_w 1 (0, 1 / 1000, 0)"]
  by (simp add: d3q19_def)

section \<open>Runs at temperature zero\<close>

lemma pass_ignores_engine:
  assumes "kernel_ignores_engine L" "p_temperature P = 0" "fst acc = fst acc'"
  shows "fst (foldl (\<lambda>a cl. stream_collide L (p_tau P) (p_temperature P) cl fOld a) acc cells)
       = fst (foldl (\<lambda>a cl. stream_collide L (p_tau P) (p_temperature P) cl fOld a) acc' cells)"
  using assms(3)
proof (induction cells arbitrary: acc acc')
  case Nil
  then show ?case by simp
next
  case (Cons cl cells)
  obtain f e where a: "acc = (f, e)" by (cases acc)
  obtain f' e' where a': "acc' = (f', e')" by (cases acc')
  from Cons.prems have "f' = f" by (simp add: a a')
  with assms(1,2) have "fst (stream_collide L (p_tau P) (p_temperature P) cl fOld acc)
      = fst (stream_collide L (p_tau P) (p_temperature P) cl fOld acc')"
    unfolding kernel_ignores_engine_def a a' by metis
  from Cons.IH [OF this] show ?case by simp
qed

lemma advance_same_fields:
  assumes "kernel_ignores_engine L" "p_temperature P = 0" "same_fields st st'"
  shows "same_fields (advance L P st) (advance L P st')"
proof -
  have "fst (stream_collide_pass L P (FillBoundary (p_nx P) (fold_mf st)) (fnew st, engine st))
      = fst (stream_collide_pass L P (FillBoundary (p_nx P) (fold_mf st)) (fnew st, engine st'))"
    unfolding stream_collide_pass_def
    by (rule pass_ignores_engine [OF assms(1,2)]) simp
  with assms(3) show ?thesis
    by (simp add: same_fields_def advance_def Let_def)
qed

lemma timestep_same_fields:
  assumes "kernel_ignores_engine L" "p_temperature P = 0" "same_fields st st'"
  shows "same_fields (timestep L P step st) (timestep L P step st')"
  using advance_same_fields [OF assms]
  by (simp add: same_fields_def timestep_def Let_def log_call_def plot_output_def)

lemma loop_same_fields:
  "kernel_ignores_engine L \<Longrightarrow> p_temperature P = 0 \<Longrightarrow> same_fields st st' \<Longrightarrow>
     same_fields (timestep_loop L P step st) (timestep_loop L P step st')"
proof (induction L P step st arbitrary: st' rule: timestep_loop.induct)
  case (1 L P step st)
  show ?case
  proof (cases "step \<le> p_nsteps P")
    case True
    from "1.IH" [OF True "1.prems"(1,2) timestep_same_fields [OF "1.prems"]]
    show ?thesis by (simp add: timestep_loop_step [OF True])
  next
    case False
    with "1.prems" show ?thesis by (simp add: timestep_loop_stop)
  qed
qed

lemma run_ignores_engine:
  assumes "kernel_ignores_engine L" and "p_temperature P = 0"
  shows "fold_mf (run L P m1 m2 m3 m4 eng') = fold_mf (run L P m1 m2 m3 m4 eng)
       \<and> calls (run L P m1 m2 m3 m4 eng') = calls (run L P m1 m2 m3 m4 eng)"
proof -
  have "same_fields (start L P m1 m2 m3 m4 eng) (start L P m1 m2 m3 m4 eng')"
    by (simp add: same_fields_def start_def allocate_def Let_def initial_output_def log_call_def)
  from loop_same_fields [OF assms this, of 1] show ?thesis
    by (simp add: run_def same_fields_def)
qed

lemma collide_zero_temperature: "collide M tau 0 xi = collide M tau 0 xi'"
  by (rule ext) (simp add: collide_def Let_def)

lemma fused_kernel_ignores_engine: "kernel_ignores_engine (spec_header M)"
  unfolding kernel_ignores_engine_def
proof (intro allI)
  fix tau :: real and cl :: cell and fOld fNew :: multifab and e e' :: random_engine
  have eq: "collide M tau 0 (draw e) = collide M tau 0 (draw e')"
    by (rule collide_zero_temperature)
  show "fst (stream_collide (spec_header M) tau 0 cl fOld (fNew, e))
           = fst (stream_collide (spec_header M) tau 0 cl fOld (fNew, e'))"
    by (simp add: spec_header_def fused_kernel_def eq cong: if_cong)
qed

text \<open>
  Claim C8. With temperature zero and the kernel of section 4.3, which adds its random
  term only for a positive temperature, two runs with the same parameters and the
  same initial memory agree in their population field and in every call they make,
  plot files included, from whatever states their random engines start. The number of
  steps is one of the parameters, so the fields agree after every step.
\<close>

theorem zero_temperature_runs_agree:
  assumes "p_temperature P = 0"
  shows "fold_mf (run (spec_header M) P m1 m2 m3 m4 eng') = fold_mf (run (spec_header M) P m1 m2 m3 m4 eng)
       \<and> calls (run (spec_header M) P m1 m2 m3 m4 eng') = calls (run (spec_header M) P m1 m2 m3 m4 eng)"
  using run_ignores_engine [OF fused_kernel_ignores_engine assms] .

text \<open>The scenario of the specification, started with two different seeds.\<close>

theorem zero_temperature_witness:
  "fold_mf (run d3q19_header scenario_params (\<lambda>cl k. 0) (\<lambda>cl k. 0) (\<lambda>cl k. 0) (\<lambda>cl k. 0) 42)
     = fold_mf (run d3q19_header scenario_params (\<lambda>cl k. 0) (\<lambda>cl k. 0) (\<lambda>cl k. 0) (\<lambda>cl k. 0) 7)"
  using zero_temperature_runs_agree [of scenario_params d3q19
      "\<lambda>cl k. 0" "\<lambda>cl k. 0" "\<lambda>cl k. 0" "\<lambda>cl k. 0" 42 7]
  by (simp add: scenario_params_def d3q19_header_def)

section \<open>The output of a later step\<close>

subsection \<open>The populations after the first pass\<close>

text \<open>
  With the header of the nineteen directions, the kernel leaves in a cell of the valid
  box the collision of the populations pulled from its neighbours. Before the first
  pass these are equilibria of density one whose velocity depends on the \<open>x\<close>
  coordinate of the neighbour only, and collision keeps density and momentum, so the
  moments of the cell after the pass are those of the pulled populations.
\<close>

lemma in_box_cells: "valid_box nx (x, y, z) \<Longrightarrow> (x, y, z) \<in> set (box_cells nx)"
  by (force simp: box_cells_def valid_box_def in_box_def)

lemma fused_pass_other:
  "cl \<notin> set cells \<Longrightarrow>
     fst (foldl (\<lambda>a c. fused_kernel M tau T c fOld a) acc cells) cl = fst acc cl"
proof (induction cells arbitrary: acc)
  case Nil
  then show ?case by simp
next
  case (Cons c cells)
  obtain fNew e where acc: "acc = (fNew, e)" by (cases acc)
  from Cons.prems have "cl \<noteq> c" "cl \<notin> set cells" by auto
  with Cons.IH [of "fused_kernel M tau T c fOld acc"] show ?case
    by (simp add: acc fused_kernel_def)
qed

lemma fused_pass_cell:
  "cl \<in> set cells \<Longrightarrow>
     \<exists>e'. \<forall>i<ndir M. fst (foldl (\<lambda>a c. fused_kernel M tau T c fOld a) acc cells) cl i
            = collide M tau T (draw e') (\<lambda>j. fOld (unshift (dirs M) j cl) j) i"
proof (induction cells arbitrary: acc)
  case Nil
  then show ?case by simp
next
  case (Cons c cells)
  obtain fNew e where acc: "acc = (fNew, e)" by (cases acc)
  show ?case
  proof (cases "cl \<in> set cells")
    case True
    from Cons.IH [OF True, of "fused_kernel M tau T c fOld acc"] show ?thesis by simp
  next
    case False
    with Cons.prems have c: "c = cl" by simp
    have "fst (foldl (\<lambda>a c. fused_kernel M tau T c fOld a) acc (c # cells)) cl
            = fst (fused_kernel M tau T cl fOld acc) cl"
      using fused_pass_other [OF False, of M tau T fOld "fused_kernel M tau T cl fOld acc"]
      by (simp add: c)
    then show ?thesis
      by (intro exI [of _ e]) (simp add: acc fused_kernel_def)
  qed
qed

lemma density_cong_lt: "(\<And>i. i < n \<Longrightarrow> f i = g i) \<Longrightarrow> density n f = density n g"
  unfolding density_def by (rule sum.cong) simp_all

lemma momentum_cong_lt: "(\<And>i. i < n \<Longrightarrow> f i = g i) \<Longrightarrow> momentum n cs f k = momentum n cs g k"
  unfolding momentum_def by (rule sum.cong) simp_all

lemma fill_initialize:
  assumes "0 < p_nx P" and "grown_box (p_nx P) (x, y, z)" and "0 \<le> x" and "x < p_nx P" and "i < ncomp L"
  shows "FillBoundary (p_nx P) (initialize L P f) (x, y, z) i = fequilibrium L 1 (0, shear_uy P x, 0) i"
proof -
  have b: "- 1 \<le> v mod p_nx P" "v mod p_nx P \<le> p_nx P" for v
    using pos_mod_sign [OF assms(1), of v] pos_mod_bound [OF assms(1), of v] by linarith+
  have w: "grown_box (p_nx P) (wrap (p_nx P) (x, y, z))" "fst (wrap (p_nx P) (x, y, z)) = x"
    using assms(3,4) by (simp_all add: wrap_def grown_box_def in_box_def nghost_def b)
  show ?thesis
    using assms(2,5) w by (simp add: FillBoundary_def initialize_def)
qed

lemma d3q19_c_bound: "- 1 \<le> d3q19_c j k \<and> d3q19_c j k \<le> 1"
proof (cases "j < 19 \<and> k < 3")
  case False
  then show ?thesis by (auto simp: d3q19_c_def)
next
  case True
  then have k: "k = 0 \<or> k = 1 \<or> k = 2" by linarith
  from True have "j < 19" by simp
  then show ?thesis
    using k by (cases rule: lt19_cases) (auto simp: d3q19_c_simps)
qed

lemma pulled_moments:
  fixes U :: "int \<Rightarrow> real"
  defines "g \<equiv> (\<lambda>j. equilibrium d3q19_c d3q19_w 1 (0, U (d3q19_c j 0), 0) j)"
  shows "density 19 g = 1"
    and "momentum 19 d3q19_c g 0 = 0"
    and "momentum 19 d3q19_c g 1 = 2 / 3 * U 0 + (U 1 + U (- 1)) / 6"
  unfolding g_def density_def momentum_def sum19 equilibrium_def Let_def sum3 vec3_def
  by (simp_all add: d3q19_c_simps d3q19_w_simps, simp_all add: field_simps)

lemma run_one_step:
  "run L one_step_params m1 m2 m3 m4 eng = timestep L one_step_params 1 (start L one_step_params m1 m2 m3 m4 eng)"
proof -
  have a: "(1::int) \<le> p_nsteps one_step_params" and b: "\<not> (1::int) + 1 \<le> p_nsteps one_step_params"
    by (simp_all add: one_step_params_def)
  show ?thesis
    unfolding run_def timestep_loop_step [OF a] by (rule timestep_loop_stop [OF b])
qed

lemma conserved_by_collide:
  "density 19 (collide d3q19 tau T xi f) = density 19 f"
  "k < 3 \<Longrightarrow> momentum 19 d3q19_c (collide d3q19 tau T xi f) k = momentum 19 d3q19_c f k"
proof -
  have n: "ndir d3q19 = 19" "dirs d3q19 = d3q19_c" by (simp_all add: d3q19_def)
  have "to_moments d3q19 (collide d3q19 tau T xi f) 0 = to_moments d3q19 f 0"
    by (rule to_moments_collide [OF d3q19_conserving]) (simp add: nconserved_def)
  then show "density 19 (collide d3q19 tau T xi f) = density 19 f"
    using density_to_moments [OF d3q19_conserving] by (simp add: n)
  assume k: "k < 3"
  have "to_moments d3q19 (collide d3q19 tau T xi f) (Suc k) = to_moments d3q19 f (Suc k)"
    by (rule to_moments_collide [OF d3q19_conserving]) (use k in \<open>simp add: nconserved_def\<close>)
  then show "momentum 19 d3q19_c (collide d3q19 tau T xi f) k = momentum 19 d3q19_c f k"
    using momentum_to_moments [OF d3q19_conserving k] by (simp add: n)
qed

lemma first_step_moments:
  fixes m1 m2 m3 m4 :: multifab and eng :: nat
  defines "st \<equiv> run d3q19_header one_step_params m1 m2 m3 m4 eng"
  defines "U \<equiv> (\<lambda>d. shear_uy one_step_params (4 - d))"
  shows "density 19 (fold_mf st (4, 0, 0)) = 1"
    and "momentum 19 d3q19_c (fold_mf st (4, 0, 0)) 0 = 0"
    and "momentum 19 d3q19_c (fold_mf st (4, 0, 0)) 1 = 2 / 3 * U 0 + (U 1 + U (- 1)) / 6"
proof -
  let ?P = one_step_params
  let ?L = d3q19_header
  let ?s0 = "start ?L ?P m1 m2 m3 m4 eng"
  let ?fOld = "FillBoundary 16 (initialize ?L ?P m1)"
  let ?pulled = "\<lambda>j. ?fOld (unshift d3q19_c j (4, 0, 0)) j"
  let ?g = "\<lambda>j. equilibrium d3q19_c d3q19_w 1 (0, U (d3q19_c j 0), 0) j"
  have P: "p_nx ?P = 16" "p_plot_int ?P = 1" "p_tau ?P = 1" "p_temperature ?P = 0"
    by (simp_all add: one_step_params_def)
  have L: "ncomp ?L = 19" "c ?L = d3q19_c" "stream_collide ?L = fused_kernel d3q19"
    "fequilibrium ?L = equilibrium d3q19_c d3q19_w"
    by (simp_all add: d3q19_header_eq)
  have n: "ndir d3q19 = 19" "dirs d3q19 = d3q19_c" by (simp_all add: d3q19_def)
  have cell: "(4, 0, 0) \<in> set (box_cells 16)"
    by (rule in_box_cells) (simp add: valid_box_def in_box_def)
  obtain e' where e': "\<forall>i<19. fst (foldl (\<lambda>a c. fused_kernel d3q19 1 0 c ?fOld a)
        (fnew ?s0, engine ?s0) (box_cells 16)) (4, 0, 0) i = collide d3q19 1 0 (draw e') ?pulled i"
    using fused_pass_cell [OF cell, of d3q19 1 0 ?fOld "(fnew ?s0, engine ?s0)"] by (auto simp: n)
  have pop: "fold_mf st (4, 0, 0) i = collide d3q19 1 0 (draw e') ?pulled i" if "i < 19" for i
    using that e'
    by (simp add: st_def run_one_step timestep_simps advance_def Let_def Copy_def
        stream_collide_pass_def P L start_simps valid_box_def in_box_def)
  have pulled: "?pulled j = ?g j" if "j < 19" for j
  proof -
    have b: "- 1 \<le> d3q19_c j k \<and> d3q19_c j k \<le> 1" for k by (rule d3q19_c_bound)
    have "?fOld (4 - d3q19_c j 0, 0 - d3q19_c j 1, 0 - d3q19_c j 2) j
            = fequilibrium ?L 1 (0, shear_uy ?P (4 - d3q19_c j 0), 0) j"
      using fill_initialize [of ?P "4 - d3q19_c j 0" "0 - d3q19_c j 1" "0 - d3q19_c j 2" j ?L m1]
        b [of 0] b [of 1] b [of 2] that
      by (simp add: P L grown_box_def in_box_def nghost_def)
    then show ?thesis by (simp add: unshift_def L U_def)
  qed
  have d: "density 19 (fold_mf st (4, 0, 0)) = density 19 ?g"
  proof -
    have "density 19 (fold_mf st (4, 0, 0)) = density 19 (collide d3q19 1 0 (draw e') ?pulled)"
      by (rule density_cong_lt) (rule pop)
    also have "\<dots> = density 19 ?pulled" by (rule conserved_by_collide(1))
    also have "\<dots> = density 19 ?g" by (rule density_cong_lt) (rule pulled)
    finally show ?thesis .
  qed
  have m: "momentum 19 d3q19_c (fold_mf st (4, 0, 0)) k = momentum 19 d3q19_c ?g k" if "k < 3" for k
  proof -
    have "momentum 19 d3q19_c (fold_mf st (4, 0, 0)) k
            = momentum 19 d3q19_c (collide d3q19 1 0 (draw e') ?pulled) k"
      by (rule momentum_cong_lt) (rule pop)
    also have "\<dots> = momentum 19 d3q19_c ?pulled k" by (rule conserved_by_collide(2) [OF that])
    also have "\<dots> = momentum 19 d3q19_c ?g k" by (rule momentum_cong_lt) (rule pulled)
    finally show ?thesis .
  qed
  show "density 19 (fold_mf st (4, 0, 0)) = 1"
    using d pulled_moments(1) [of U] by simp
  show "momentum 19 d3q19_c (fold_mf st (4, 0, 0)) 0 = 0"
    using m [of 0] pulled_moments(2) [of U] by simp
  show "momentum 19 d3q19_c (fold_mf st (4, 0, 0)) 1 = 2 / 3 * U 0 + (U 1 + U (- 1)) / 6"
    using m [of 1] pulled_moments(3) [of U] by simp
qed

subsection \<open>What the two output loops write\<close>

text \<open>
  The output of the initial data, for a header that keeps the contract of the
  equilibrium: on the state the driver has reached at line 100, each of the three
  values written for a cell is the velocity of section 4.5.
\<close>

lemma initial_output_is_the_velocity:
  assumes "equilibrium_contract L" and "p_plot_int P > 0" and "grown_box (p_nx P) cl" and "k < 3"
  shows "hydrovars (start L P m1 m2 m3 m4 eng) cl k
           = velocity (ncomp L) (c L) (fold_mf (start L P m1 m2 m3 m4 eng) cl) k"
proof -
  let ?f = "fequilibrium L 1 (0, shear_uy P (fst cl), 0)"
  have pop: "fold_mf (start L P m1 m2 m3 m4 eng) cl i = ?f i" if "i < ncomp L" for i
    using that assms(3) by (simp add: start_simps initialize_def)
  have "density (ncomp L) (fold_mf (start L P m1 m2 m3 m4 eng) cl) = density (ncomp L) ?f"
    by (rule density_cong_lt) (rule pop)
  with assms(1) have d: "density (ncomp L) (fold_mf (start L P m1 m2 m3 m4 eng) cl) = 1"
    by (simp add: equilibrium_contract_def)
  have m: "momentum (ncomp L) (c L) (fold_mf (start L P m1 m2 m3 m4 eng) cl) k
             = momentum (ncomp L) (c L) ?f k"
    by (rule momentum_cong_lt) (rule pop)
  from hydrovars_start [OF assms(2,3,4), of L m1 m2 m3 m4 eng] d m show ?thesis
    by (simp add: velocity_def)
qed

text \<open>
  Claim C2 asks that at every output step the value written for a cell is the first
  moment of its populations divided by their density. The output of the initial data
  (lines 104 to 109) writes the three components of the first moment, and the
  populations that the driver has just created have density one, so the claim holds
  there. The output of a later step (lines 141 to 144) writes one value only: it puts
  the \<open>y\<close> component of the first moment, \<open>c[i][1]\<close>, into component 0 of the record, the
  place of the \<open>x\<close> velocity, and hands that record to the plot file.
\<close>

theorem later_output_puts_y_momentum_in_component_0:
  assumes "p_plot_int P > 0" and "step mod p_plot_int P = 0" and "grown_box (p_nx P) cl"
  shows "WriteSingleLevelPlotfile step (real_of_int step) (hydrovars (timestep L P step st))
           \<in> set (calls (timestep L P step st))
       \<and> hydrovars (timestep L P step st) cl 0
           = momentum (ncomp L) (c L) (fold_mf (timestep L P step st) cl) 1"
  using assms by (simp add: timestep_simps hydro_output_def hydro_cell_sum momentum_def)

text \<open>
  The configuration \<open>nsteps = 1\<close>, \<open>plot_int = 1\<close> with the header of the nineteen
  directions: the run is the initial output followed by one pass, which is an output
  step. At the cell \<open>(4,0,0)\<close>, on the crest of the shear wave, the populations after
  the pass have density one and no momentum along \<open>x\<close>, so the \<open>x\<close> velocity of section
  4.5 is zero; the value in component 0 of the plot file of step 1 is positive.
\<close>

theorem later_output_is_not_the_velocity:
  "main_driver d3q19_header [''nsteps'' \<mapsto> PInt 1, ''plot_int'' \<mapsto> PInt 1]
       (\<lambda>cl k. 0) (\<lambda>cl k. 0) (\<lambda>cl k. 0) (\<lambda>cl k. 0) 0
     = Inr (run d3q19_header one_step_params (\<lambda>cl k. 0) (\<lambda>cl k. 0) (\<lambda>cl k. 0) (\<lambda>cl k. 0) 0)
   \<and> WriteSingleLevelPlotfile 1 1
        (hydrovars (run d3q19_header one_step_params (\<lambda>cl k. 0) (\<lambda>cl k. 0) (\<lambda>cl k. 0) (\<lambda>cl k. 0) 0))
      \<in> set (calls (run d3q19_header one_step_params (\<lambda>cl k. 0) (\<lambda>cl k. 0) (\<lambda>cl k. 0) (\<lambda>cl k. 0) 0))
   \<and> velocity 19 d3q19_c
        (fold_mf (run d3q19_header one_step_params (\<lambda>cl k. 0) (\<lambda>cl k. 0) (\<lambda>cl k. 0) (\<lambda>cl k. 0) 0) (4, 0, 0)) 0
      = 0
   \<and> 0 < hydrovars (run d3q19_header one_step_params (\<lambda>cl k. 0) (\<lambda>cl k. 0) (\<lambda>cl k. 0) (\<lambda>cl k. 0) 0) (4, 0, 0) 0"
proof -
  let ?s0 = "start d3q19_header one_step_params (\<lambda>cl k. 0) (\<lambda>cl k. 0) (\<lambda>cl k. 0) (\<lambda>cl k. 0) 0"
  let ?st = "run d3q19_header one_step_params (\<lambda>cl k. 0) (\<lambda>cl k. 0) (\<lambda>cl k. 0) (\<lambda>cl k. 0) 0"
  have rd: "main_driver d3q19_header [''nsteps'' \<mapsto> PInt 1, ''plot_int'' \<mapsto> PInt 1]
       (\<lambda>cl k. 0) (\<lambda>cl k. 0) (\<lambda>cl k. 0) (\<lambda>cl k. 0) 0 = Inr ?st"
    by (simp add: main_driver_def read_params_def query_int_def query_real_def d3q19_header_eq
        one_step_params_def)
  have st: "?st = timestep d3q19_header one_step_params 1 ?s0"
    by (rule run_one_step)
  have L: "ncomp d3q19_header = 19" "c d3q19_header = d3q19_c"
    by (simp_all add: d3q19_header_eq)
  have h: "p_plot_int one_step_params > 0" "1 mod p_plot_int one_step_params = 0"
    "grown_box (p_nx one_step_params) (4, 0, 0)"
    by (simp_all add: one_step_params_def grown_box_def in_box_def nghost_def)
  from later_output_puts_y_momentum_in_component_0 [OF h, of d3q19_header ?s0]
  have w: "WriteSingleLevelPlotfile 1 1 (hydrovars ?st) \<in> set (calls ?st)"
    and y: "hydrovars ?st (4, 0, 0) 0 = momentum 19 d3q19_c (fold_mf ?st (4, 0, 0)) 1"
    by (simp_all add: st L)
  have v: "velocity 19 d3q19_c (fold_mf ?st (4, 0, 0)) 0 = 0"
    by (simp add: velocity_def first_step_moments(1,2))
  have s: "- 1 \<le> sin x" for x :: real by (rule sin_ge_minus_one)
  have u4: "shear_uy one_step_params 4 = 1 / 1000"
    using sin_pi_half by (simp add: shear_uy_def one_step_params_def)
  have u3: "- (1 / 1000) \<le> shear_uy one_step_params 3"
    using s [of "2 * pi * 3 / 16"] by (simp add: shear_uy_def one_step_params_def)
  have u5: "- (1 / 1000) \<le> shear_uy one_step_params 5"
    using s [of "2 * pi * 5 / 16"] by (simp add: shear_uy_def one_step_params_def)
  have "hydrovars ?st (4, 0, 0) 0
          = 2 / 3 * shear_uy one_step_params 4
            + (shear_uy one_step_params 3 + shear_uy one_step_params 5) / 6"
    using y first_step_moments(3) [of "\<lambda>cl k. 0" "\<lambda>cl k. 0" "\<lambda>cl k. 0" "\<lambda>cl k. 0" 0]
    by simp
  moreover have "0 < 2 / 3 * a + (b + d) / 6"
    if "a = 1 / 1000" "- (1 / 1000) \<le> b" "- (1 / 1000) \<le> d" for a b d :: real
    using that by (simp add: field_simps)
  from this [OF u4 u3 u5]
  have "0 < 2 / 3 * shear_uy one_step_params 4
            + (shear_uy one_step_params 3 + shear_uy one_step_params 5) / 6" .
  ultimately have "0 < hydrovars ?st (4, 0, 0) 0" by (simp only:)
  with rd w v show ?thesis by simp
qed

end
